theory Spec2Isabelle
  imports Main
begin

section \<open>The dubbing pipeline of ai\_dub: data model\<close>

text \<open>
  The pipeline (\<^verbatim>\<open>main.py\<close>, \<^verbatim>\<open>utils/*.py\<close>) threads file paths through six stages.
  Every stage function returns the output path, or Python's \<^verbatim>\<open>None\<close> on failure; it
  reads and writes files and writes log records. The model passes a \<open>world\<close> explicitly:
  the files on disk (path to contents; the size of a file is the length of its
  contents) and a trace. The trace holds the logger's records in order, one
  \<open>Invoke\<close> entry for every call into an external tool or library, and, for the
  orchestrator, one \<open>StageCall\<close> entry per stage it starts (with the paths it passes),
  one \<open>StageReturn\<close> or \<open>StageRaised\<close> entry for what the stage gave back, and one
  \<open>Handoff\<close> entry whenever it goes on from a stage to the next: the number of the
  finished stage, the path that stage returned and what the disk holds for that path
  at that moment (\<open>None\<close>: no such file).

  The external tools (pytube, yt-dlp, ffmpeg, Whisper, the translators and the
  speech engines) are parameters, collected in the record \<open>env\<close>: each maps its
  arguments and the files to an outcome, a return value or a raised exception,
  together with the files as the tool left them. A tool that never returns is
  outside the model. Console output, wall-clock times and the megabyte figures of
  log messages are not modelled: such a message keeps its fixed text. Directories
  are not files of the model; \<open>makedirs env p\<close> stands for
  \<^verbatim>\<open>os.makedirs(os.path.dirname(p), exist_ok=True)\<close> and says whether it raised.
  A file that Python itself opens for writing is written: that \<^verbatim>\<open>open(p, "w")\<close> succeeds
  once the directory is there is taken for granted.
  Strings are lists of bytes: a text stands for a Python \<^verbatim>\<open>str\<close> through its UTF-8
  encoding, and a file holds the bytes on disk. Reading a file in text mode decodes it
  (an invalid sequence raises \<^verbatim>\<open>UnicodeDecodeError\<close>, whose message, naming the byte and
  its position, is kept as one fixed text) and translates the line ends;
  \<open>py_len\<close> counts code points, as \<^verbatim>\<open>len\<close> does. Text is written as it is (the line
  separator of POSIX).
\<close>

type_synonym path = string
type_synonym fs = "path \<rightharpoonup> string"

datatype level = DEBUG | INFO | WARNING | ERROR

datatype exn =
    PytubeError string
  | FileNotFoundError string
  | ImportError string
  | UnicodeDecodeError string
  | OtherError string

datatype tool =
    Pytube | YtDlp | FFmpeg | Whisper | GoogleTranslate | OpenAI
  | Bark | CoquiTTS | YourTTS | XTTS | GTTS | MoviePy

datatype event =
    Log level string
  | Invoke tool "string list"
  | StageCall nat "path list"
  | StageReturn nat "path option"
  | StageRaised nat exn
  | Handoff nat path "string option"

datatype 'a outcome = Returns 'a fs | Raises exn fs

record world =
  files :: fs
  trace :: "event list"

record env =
  base_dir :: path
  openai_api_key :: string
  time_now :: nat
  cuda :: bool
  makedirs :: "path \<Rightarrow> exn option"
  pytube_title :: "string \<Rightarrow> exn + string"
  pytube_has_resolution :: "string \<Rightarrow> string \<Rightarrow> exn + bool"
  pytube_download :: "string \<Rightarrow> string option \<Rightarrow> path \<Rightarrow> fs \<Rightarrow> unit outcome"
  yt_dlp :: "string list \<Rightarrow> fs \<Rightarrow> (int \<times> string) outcome"
  ffmpeg :: "string list \<Rightarrow> fs \<Rightarrow> (int \<times> string) outcome"
  moviepy_open :: "path \<Rightarrow> path \<Rightarrow> fs \<Rightarrow> exn + bool"
  moviepy_write :: "path \<Rightarrow> path \<Rightarrow> bool \<Rightarrow> path \<Rightarrow> fs \<Rightarrow> unit outcome"
  whisper_load :: "string \<Rightarrow> exn option"
  whisper_transcribe :: "string \<Rightarrow> path \<Rightarrow> string option \<Rightarrow> fs \<Rightarrow> exn + string"
  google_translate :: "string \<Rightarrow> string \<Rightarrow> string \<Rightarrow> exn + string"
  openai_chat :: "string \<Rightarrow> string \<Rightarrow> string \<Rightarrow> exn + string option"
  has_bark :: bool
  has_TTS :: bool
  bark_generate :: "string \<Rightarrow> string \<Rightarrow> exn + string"
  coqui_load :: "exn option"
  coqui_tts_to_file :: "string \<Rightarrow> path \<Rightarrow> fs \<Rightarrow> unit outcome"
  your_tts_load :: "exn option"
  your_tts_to_file :: "string \<Rightarrow> path \<Rightarrow> path \<Rightarrow> string \<Rightarrow> fs \<Rightarrow> unit outcome"
  xtts_load :: "bool \<Rightarrow> exn option"
  xtts_to_file :: "string \<Rightarrow> path option \<Rightarrow> path \<Rightarrow> string \<Rightarrow> fs \<Rightarrow> unit outcome"
  gtts_new :: "string \<Rightarrow> string \<Rightarrow> exn option"
  gtts_save :: "string \<Rightarrow> string \<Rightarrow> path \<Rightarrow> fs \<Rightarrow> unit outcome"

text \<open>
  The fields of \<open>env\<close>, by the source line they stand for:
  \<^item> \<open>base_dir\<close>, \<open>openai_api_key\<close>: \<^verbatim>\<open>BASE_DIR\<close> and \<^verbatim>\<open>OPENAI_API_KEY\<close> of the settings;
    \<open>time_now\<close>: \<^verbatim>\<open>int(time.time())\<close>; \<open>cuda\<close>: \<^verbatim>\<open>torch.cuda.is_available()\<close>;
  \<^item> \<open>pytube_title\<close>: \<^verbatim>\<open>YouTube(url, ...)\<close> and \<^verbatim>\<open>yt.title\<close>; \<open>pytube_has_resolution\<close>:
    whether the first \<^verbatim>\<open>streams.filter(...).first()\<close> finds a stream;
    \<open>pytube_download\<close>: choosing the stream (\<open>None\<close>: the highest resolution) and
    \<^verbatim>\<open>video_stream.download\<close>;
  \<^item> \<open>yt_dlp\<close>, \<open>ffmpeg\<close>: \<^verbatim>\<open>subprocess.Popen(cmd)\<close> up to the exit of the process, giving
    the return code and the text of stderr;
  \<^item> \<open>moviepy_open\<close>: loading both clips, giving whether the audio is longer than the
    video; \<open>moviepy_write\<close>: \<^verbatim>\<open>set_audio\<close> (trimmed or not) and \<^verbatim>\<open>write_videofile\<close>;
  \<^item> \<open>whisper_load\<close>, \<open>whisper_transcribe\<close>: \<^verbatim>\<open>whisper.load_model\<close> and
    \<^verbatim>\<open>model.transcribe(...)["text"]\<close>;
  \<^item> \<open>google_translate\<close>: \<^verbatim>\<open>translator.translate(...).result\<close>; \<open>openai_chat\<close>: the request
    and the stripped content of the first choice (\<open>None\<close>: no choice in the response);
  \<^item> \<open>has_bark\<close>, \<open>has_TTS\<close>: whether the import of the library succeeds;
    \<open>bark_generate\<close>: \<^verbatim>\<open>preload_models\<close> and \<^verbatim>\<open>generate_audio\<close>, giving the audio data;
    \<open>coqui_load\<close>, \<open>your_tts_load\<close>, \<open>xtts_load\<close>: the constructor \<^verbatim>\<open>TTS(...)\<close> of each model;
    \<open>coqui_tts_to_file\<close>, \<open>your_tts_to_file\<close>, \<open>xtts_to_file\<close>: \<^verbatim>\<open>tts.tts_to_file\<close>;
    \<open>gtts_new\<close>, \<open>gtts_save\<close>: \<^verbatim>\<open>gTTS(text, lang, slow=False)\<close> and \<^verbatim>\<open>tts.save\<close>.
\<close>

subsection \<open>Python helpers\<close>

fun str_exn :: "exn \<Rightarrow> string" where
  "str_exn (PytubeError m) = m"
| "str_exn (FileNotFoundError m) = m"
| "str_exn (ImportError m) = m"
| "str_exn (UnicodeDecodeError m) = m"
| "str_exn (OtherError m) = m"

definition sq :: string where
  \<comment> \<open>the apostrophe of a message\<close>
  "sq = [CHR 0x27]"

definition ffmpeg_not_found :: string where
  "ffmpeg_not_found =
     ''ffmpeg not found. Please install ffmpeg and ensure it'' @ sq @ ''s in your PATH.''"

definition arrow :: string where
  \<comment> \<open>the UTF-8 bytes of the arrow U+2192 of two messages\<close>
  "arrow = [CHR 0xE2, CHR 0x86, CHR 0x92]"

definition logger :: "level \<Rightarrow> string \<Rightarrow> world \<Rightarrow> world" where
  "logger lvl msg w = w\<lparr>trace := trace w @ [Log lvl msg]\<rparr>"

definition emit :: "event \<Rightarrow> world \<Rightarrow> world" where
  "emit e w = w\<lparr>trace := trace w @ [e]\<rparr>"

definition exists :: "fs \<Rightarrow> path \<Rightarrow> bool" where
  \<comment> \<open>\<^verbatim>\<open>os.path.exists\<close>\<close>
  "exists f p = (f p \<noteq> None)"

definition getsize :: "fs \<Rightarrow> path \<Rightarrow> exn + nat" where
  \<comment> \<open>\<^verbatim>\<open>os.path.getsize\<close>: raises FileNotFoundError on a missing file\<close>
  "getsize f p = (case f p of None \<Rightarrow> Inl (FileNotFoundError p) | Some c \<Rightarrow> Inr (length c))"

definition byte :: "char \<Rightarrow> nat" where
  "byte c = of_char c"

definition continuation :: "char \<Rightarrow> bool" where
  \<comment> \<open>a continuation byte of UTF-8\<close>
  "continuation c = (0x80 \<le> byte c \<and> byte c \<le> 0xBF)"

fun utf8_valid :: "string \<Rightarrow> bool" where
  \<comment> \<open>the byte sequences the strict \<^verbatim>\<open>utf-8\<close> codec decodes: no overlong form, no
      surrogate, nothing above U+10FFFF\<close>
  "utf8_valid [] = True"
| "utf8_valid (c # cs) =
     (let b = byte c in
      if b < 0x80 then utf8_valid cs
      else if 0xC2 \<le> b \<and> b \<le> 0xDF
      then (case cs of
              c1 # r \<Rightarrow> continuation c1 \<and> utf8_valid r
            | _ \<Rightarrow> False)
      else if 0xE0 \<le> b \<and> b \<le> 0xEF
      then (case cs of
              c1 # c2 # r \<Rightarrow>
                (if b = 0xE0 then 0xA0 \<le> byte c1 \<and> byte c1 \<le> 0xBF
                 else if b = 0xED then 0x80 \<le> byte c1 \<and> byte c1 \<le> 0x9F
                 else continuation c1) \<and>
                continuation c2 \<and> utf8_valid r
            | _ \<Rightarrow> False)
      else if 0xF0 \<le> b \<and> b \<le> 0xF4
      then (case cs of
              c1 # c2 # c3 # r \<Rightarrow>
                (if b = 0xF0 then 0x90 \<le> byte c1 \<and> byte c1 \<le> 0xBF
                 else if b = 0xF4 then 0x80 \<le> byte c1 \<and> byte c1 \<le> 0x8F
                 else continuation c1) \<and>
                continuation c2 \<and> continuation c3 \<and> utf8_valid r
            | _ \<Rightarrow> False)
      else False)"

fun newlines :: "string \<Rightarrow> string" where
  \<comment> \<open>the universal newlines of text mode: \<^verbatim>\<open>\r\n\<close> and \<^verbatim>\<open>\r\<close> are read as \<^verbatim>\<open>\n\<close>\<close>
  "newlines (c # c' # cs) =
     (if c = CHR 0x0D
      then (if c' = CHR 0x0A then CHR 0x0A # newlines cs else CHR 0x0A # newlines (c' # cs))
      else c # newlines (c' # cs))"
| "newlines [c] = (if c = CHR 0x0D then [CHR 0x0A] else [c])"
| "newlines [] = []"

definition py_len :: "string \<Rightarrow> nat" where
  \<comment> \<open>\<^verbatim>\<open>len(text)\<close>: the code points of a text, one for every byte that does not continue
      a sequence\<close>
  "py_len s = length (filter (\<lambda>c. \<not> continuation c) s)"

definition read_file :: "fs \<Rightarrow> path \<Rightarrow> exn + string" where
  \<comment> \<open>\<^verbatim>\<open>open(p, "r", encoding="utf-8").read()\<close>\<close>
  "read_file f p =
     (case f p of
        None \<Rightarrow> Inl (FileNotFoundError p)
      | Some c \<Rightarrow>
          if utf8_valid c then Inr (newlines c)
          else Inl (UnicodeDecodeError ''utf-8 codec cannot decode the file''))"

definition write_file :: "path \<Rightarrow> string \<Rightarrow> world \<Rightarrow> world" where
  \<comment> \<open>\<^verbatim>\<open>open(p, "w").write(c)\<close>: the file is created or truncated\<close>
  "write_file p c w = w\<lparr>files := (files w)(p \<mapsto> c)\<rparr>"

definition truthy :: "path option \<Rightarrow> bool" where
  \<comment> \<open>Python's truth value of a returned path: \<^verbatim>\<open>None\<close> and \<^verbatim>\<open>""\<close> are false\<close>
  "truthy r = (case r of None \<Rightarrow> False | Some p \<Rightarrow> p \<noteq> [])"

definition digit :: "nat \<Rightarrow> char" where
  "digit d = ''0123456789'' ! (d mod 10)"

fun str_nat :: "nat \<Rightarrow> string" where
  "str_nat n = (if n < 10 then [digit n] else str_nat (n div 10) @ [digit (n mod 10)])"

declare str_nat.simps [simp del]

definition str_int :: "int \<Rightarrow> string" where
  \<comment> \<open>\<^verbatim>\<open>str(i)\<close> of a Python int\<close>
  "str_int i = (if i < 0 then CHR ''-'' # str_nat (nat (- i)) else str_nat (nat i))"

fun join_sp :: "string list \<Rightarrow> string" where
  \<comment> \<open>\<^verbatim>\<open>' '.join(cmd)\<close>\<close>
  "join_sp [] = []"
| "join_sp [x] = x"
| "join_sp (x # y # ys) = x @ CHR '' '' # join_sp (y # ys)"

definition lower_char :: "char \<Rightarrow> char" where
  "lower_char c =
     (let n = (of_char c :: nat) in if 65 \<le> n \<and> n \<le> 90 then char_of (n + 32) else c)"

fun lower :: "string \<Rightarrow> string" where
  \<comment> \<open>\<^verbatim>\<open>str.lower()\<close>, as far as a comparison of the result with an ASCII string can tell
      (the code only compares it with ASCII names and looks it up under ASCII keys): the
      ASCII letters are folded; the Kelvin sign U+212A, bytes E2 84 AA, the one other
      character whose lower case is ASCII, becomes \<^verbatim>\<open>k\<close>; any other character keeps
      bytes outside ASCII, as its lower case does\<close>
  "lower (c # c1 # c2 # cs) =
     (if c = CHR 0xE2 \<and> c1 = CHR 0x84 \<and> c2 = CHR 0xAA then CHR ''k'' # lower cs
      else lower_char c # lower (c1 # c2 # cs))"
| "lower (c # cs) = lower_char c # lower cs"
| "lower [] = []"

definition replace_p :: "string \<Rightarrow> string" where
  \<comment> \<open>\<^verbatim>\<open>resolution.replace("p", "")\<close>\<close>
  "replace_p s = filter (\<lambda>c. c \<noteq> CHR ''p'') s"

subsection \<open>Settings (\<^verbatim>\<open>config/settings.py\<close>)\<close>

definition OUTPUTS_DIR :: "env \<Rightarrow> path" where
  "OUTPUTS_DIR env = base_dir env @ ''/outputs''"

definition TEMP_VIDEO_PATH :: "env \<Rightarrow> path" where
  "TEMP_VIDEO_PATH env = OUTPUTS_DIR env @ ''/temp_video.mp4''"

definition TEMP_AUDIO_PATH :: "env \<Rightarrow> path" where
  "TEMP_AUDIO_PATH env = OUTPUTS_DIR env @ ''/temp_audio.wav''"

definition TEMP_TRANSCRIPT_PATH :: "env \<Rightarrow> path" where
  "TEMP_TRANSCRIPT_PATH env = OUTPUTS_DIR env @ ''/transcript.txt''"

definition TEMP_TRANSLATED_PATH :: "env \<Rightarrow> path" where
  "TEMP_TRANSLATED_PATH env = OUTPUTS_DIR env @ ''/translated.txt''"

definition TEMP_DUBBED_AUDIO_PATH :: "env \<Rightarrow> path" where
  "TEMP_DUBBED_AUDIO_PATH env = OUTPUTS_DIR env @ ''/dubbed_audio.wav''"

definition OUTPUT_VIDEO_PATH :: "env \<Rightarrow> path" where
  "OUTPUT_VIDEO_PATH env = OUTPUTS_DIR env @ ''/dubbed_video.mp4''"

definition WHISPER_MODEL :: string where
  "WHISPER_MODEL = ''base''"

definition TRANSLATION_ENGINE :: string where
  "TRANSLATION_ENGINE = ''google''"

definition TTS_ENGINE :: string where
  "TTS_ENGINE = ''gtts''"

section \<open>Acquirer (\<^verbatim>\<open>utils/downloader.py\<close>)\<close>

definition yt_dlp_except :: "exn \<Rightarrow> world \<Rightarrow> path option \<times> world" where
  \<comment> \<open>the two handlers of \<^verbatim>\<open>download_video_with_yt_dlp\<close>\<close>
  "yt_dlp_except e w =
     (case e of
        FileNotFoundError _ \<Rightarrow>
          (None, logger ERROR (''yt-dlp is not installed. Install it with '' @ sq @ ''pip install yt-dlp'' @ sq) w)
      | _ \<Rightarrow> (None, logger ERROR (''Error using yt-dlp: '' @ str_exn e) w))"

definition yt_dlp_cmd :: "string \<Rightarrow> path \<Rightarrow> string \<Rightarrow> string list" where
  "yt_dlp_cmd url output_path resolution =
     [''yt-dlp'', ''-f'', ''best[height<='' @ resolution @ '']'', ''-o'', output_path,
      ''--no-playlist'', url]"

definition download_video_with_yt_dlp ::
  "env \<Rightarrow> string \<Rightarrow> path \<Rightarrow> string \<Rightarrow> world \<Rightarrow> path option \<times> world" where
  "download_video_with_yt_dlp env url output_path resolution w0 =
     (case makedirs env output_path of
        Some e \<Rightarrow> yt_dlp_except e w0
      | None \<Rightarrow>
          (let w1 = logger INFO (''Attempting to download with yt-dlp: '' @ url) w0;
               cmd = yt_dlp_cmd url output_path resolution;
               w2 = emit (Invoke YtDlp cmd) w1
           in case yt_dlp env cmd (files w2) of
                Raises e f \<Rightarrow> yt_dlp_except e (w2\<lparr>files := f\<rparr>)
              | Returns (return_code, stderr) f \<Rightarrow>
                  (let w3 = w2\<lparr>files := f\<rparr> in
                   if return_code \<noteq> 0
                   then (None, logger ERROR (''yt-dlp error: '' @ stderr) w3)
                   else (case getsize f output_path of
                           Inl e \<Rightarrow> yt_dlp_except e w3
                         | Inr _ \<Rightarrow>
                             (Some output_path,
                              logger INFO ''Download time, Size''
                                (logger INFO
                                   (''Video downloaded successfully using yt-dlp to '' @ output_path)
                                   w3))))))"

definition pytube_except :: "exn \<Rightarrow> world \<Rightarrow> world" where
  \<comment> \<open>what the two handlers of \<^verbatim>\<open>download_youtube_video\<close> log before the fallback\<close>
  "pytube_except e w =
     (case e of
        PytubeError _ \<Rightarrow>
          logger INFO ''Trying alternative download method...''
            (logger ERROR (''Error downloading YouTube video with pytube: '' @ str_exn e) w)
      | _ \<Rightarrow> logger ERROR (''Unexpected error during download: '' @ str_exn e) w)"

definition pytube_try :: "env \<Rightarrow> string \<Rightarrow> path \<Rightarrow> string \<Rightarrow> world \<Rightarrow> (exn + path) \<times> world" where
  \<comment> \<open>the body of the \<^verbatim>\<open>try\<close> of \<^verbatim>\<open>download_youtube_video\<close>: \<open>Inl e\<close> when \<open>e\<close> is raised
      in it, \<open>Inr\<close> the path it returns\<close>
  "pytube_try env url output_path resolution w2 =
     (case pytube_title env url of
        Inl e \<Rightarrow> (Inl e, w2)
      | Inr title \<Rightarrow>
          (let w3 = logger INFO (''Video title: '' @ title) w2 in
           case pytube_has_resolution env url resolution of
             Inl e \<Rightarrow> (Inl e, w3)
           | Inr has \<Rightarrow>
               (let w4 = (if has then w3
                          else logger WARNING (''Resolution '' @ resolution @
                                 '' not available. Getting highest resolution.'') w3)
                in case makedirs env output_path of
                     Some e \<Rightarrow> (Inl e, w4)
                   | None \<Rightarrow>
                       (case pytube_download env url (if has then Some resolution else None)
                               output_path (files w4) of
                          Raises e f \<Rightarrow> (Inl e, w4\<lparr>files := f\<rparr>)
                        | Returns _ f \<Rightarrow>
                            (let w5 = w4\<lparr>files := f\<rparr> in
                             case getsize f output_path of
                               Inl e \<Rightarrow> (Inl e, w5)
                             | Inr _ \<Rightarrow>
                                 (Inr output_path,
                                  logger INFO ''Download time, Size''
                                    (logger INFO
                                       (''Video downloaded successfully to '' @ output_path)
                                       w5)))))))"

definition download_youtube_video ::
  "env \<Rightarrow> string \<Rightarrow> path \<Rightarrow> string \<Rightarrow> world \<Rightarrow> path option \<times> world" where
  \<comment> \<open>both handlers log (\<open>pytube_except\<close>) and return what yt-dlp gives\<close>
  "download_youtube_video env url output_path resolution w0 =
     (let w1 = logger INFO (''Downloading YouTube video: '' @ url) w0;
          w2 = emit (Invoke Pytube [url]) w1
      in case pytube_try env url output_path resolution w2 of
           (Inr p, w) \<Rightarrow> (Some p, w)
         | (Inl e, w) \<Rightarrow>
             download_video_with_yt_dlp env url output_path (replace_p resolution)
               (pytube_except e w))"

section \<open>Extractor (\<^verbatim>\<open>utils/audio_extractor.py\<close>)\<close>

definition extract_except :: "exn \<Rightarrow> world \<Rightarrow> (exn + path option) \<times> world" where
  "extract_except e w =
     (case e of
        FileNotFoundError _ \<Rightarrow>
          (Inr None,
           logger ERROR ffmpeg_not_found w)
      | _ \<Rightarrow> (Inr None,
               logger ERROR (''Unexpected error during audio extraction: '' @ str_exn e) w))"

definition extract_cmd :: "path \<Rightarrow> path \<Rightarrow> int \<Rightarrow> int \<Rightarrow> string list" where
  "extract_cmd video_path audio_path sample_rate channels =
     [''ffmpeg'', ''-y'', ''-i'', video_path, ''-vn'', ''-acodec'', ''pcm_s16le'',
      ''-ar'', str_int sample_rate, ''-ac'', str_int channels, audio_path]"

definition extract_audio ::
  "env \<Rightarrow> path \<Rightarrow> path \<Rightarrow> int \<Rightarrow> int \<Rightarrow> world \<Rightarrow> (exn + path option) \<times> world" where
  \<comment> \<open>\<^verbatim>\<open>os.makedirs\<close> stands before the \<^verbatim>\<open>try\<close>: its exception leaves the function\<close>
  "extract_audio env video_path audio_path sample_rate channels w0 =
     (let w1 = logger INFO (''Extracting audio from video: '' @ video_path) w0 in
      if \<not> exists (files w1) video_path
      then (Inr None, logger ERROR (''Video file not found: '' @ video_path) w1)
      else (case makedirs env audio_path of
              Some e \<Rightarrow> (Inl e, w1)
            | None \<Rightarrow>
                (let cmd = extract_cmd video_path audio_path sample_rate channels;
                     w2 = logger DEBUG (''Running command: '' @ join_sp cmd) w1;
                     w3 = emit (Invoke FFmpeg cmd) w2
                 in case ffmpeg env cmd (files w3) of
                      Raises e f \<Rightarrow> extract_except e (w3\<lparr>files := f\<rparr>)
                    | Returns (returncode, stderr) f \<Rightarrow>
                        (let w4 = w3\<lparr>files := f\<rparr> in
                         if returncode \<noteq> 0
                         then (Inr None, logger ERROR (''Error extracting audio: '' @ stderr) w4)
                         else (case getsize f audio_path of
                                 Inl e \<Rightarrow> extract_except e w4
                               | Inr _ \<Rightarrow>
                                   (Inr (Some audio_path),
                                    logger INFO
                                      (''Audio settings: '' @ str_int sample_rate @ ''Hz, '' @
                                       str_int channels @ '' channel(s)'')
                                      (logger INFO ''Extraction time, Size''
                                         (logger INFO
                                            (''Audio extracted successfully to '' @ audio_path)
                                            w4))))))))"

section \<open>Transcriber (\<^verbatim>\<open>utils/transcriber.py\<close>)\<close>

definition transcribe_except :: "exn \<Rightarrow> world \<Rightarrow> path option \<times> world" where
  "transcribe_except e w = (None, logger ERROR (''Error during transcription: '' @ str_exn e) w)"

definition transcribe_audio ::
  "env \<Rightarrow> path \<Rightarrow> path \<Rightarrow> string \<Rightarrow> string \<Rightarrow> world \<Rightarrow> path option \<times> world" where
  "transcribe_audio env audio_path output_path model_name language w0 =
     (let w1 = logger INFO (''Transcribing audio: '' @ audio_path @ '' using Whisper '' @
                 model_name @ '' model'') w0 in
      if \<not> exists (files w1) audio_path
      then (None, logger ERROR (''Audio file not found: '' @ audio_path) w1)
      else
        (let w2 = emit (Invoke Whisper [model_name])
                    (logger INFO (''Loading Whisper '' @ model_name @ '' model...'') w1)
         in case whisper_load env model_name of
              Some e \<Rightarrow> transcribe_except e w2
            | None \<Rightarrow>
                (let w3 = logger INFO ''Starting transcription...'' (logger INFO ''Model loaded'' w2);
                     options = (if language \<noteq> [] then Some language else None)
                 in case whisper_transcribe env model_name audio_path options (files w3) of
                      Inl e \<Rightarrow> transcribe_except e w3
                    | Inr transcript \<Rightarrow>
                        (let w4 = logger INFO ''Transcription completed'' w3 in
                         case makedirs env output_path of
                           Some e \<Rightarrow> transcribe_except e w4
                         | None \<Rightarrow>
                             (Some output_path,
                              logger INFO (''Transcript length: '' @
                                  str_nat (py_len transcript) @ '' characters'')
                                (logger INFO (''Transcript saved to '' @ output_path)
                                   (write_file output_path transcript w4)))))))"

section \<open>Translator (\<^verbatim>\<open>utils/translator.py\<close>)\<close>

definition translate_text_google ::
  "env \<Rightarrow> string \<Rightarrow> string \<Rightarrow> string \<Rightarrow> world \<Rightarrow> string option \<times> world" where
  "translate_text_google env text source_lang target_lang w0 =
     (let w1 = emit (Invoke GoogleTranslate [text, source_lang, target_lang])
                 (logger INFO (''Translating text using Google Translate ('' @ source_lang @
                    '' '' @ arrow @ '' '' @ target_lang @ '')'') w0)
      in case google_translate env text source_lang target_lang of
           Inl e \<Rightarrow> (None, logger ERROR (''Error translating with Google: '' @ str_exn e) w1)
         | Inr r \<Rightarrow> (Some r, w1))"

definition translate_text_openai ::
  "env \<Rightarrow> string \<Rightarrow> string \<Rightarrow> string \<Rightarrow> world \<Rightarrow> string option \<times> world" where
  "translate_text_openai env text source_lang target_lang w0 =
     (if openai_api_key env = []
      then (None, logger ERROR
              ''OpenAI API key not found. Please set it in settings.py or environment variables.''
              w0)
      else
        (let w1 = emit (Invoke OpenAI [text, source_lang, target_lang])
                    (logger INFO (''Translating text using OpenAI GPT ('' @ source_lang @
                       '' '' @ arrow @ '' '' @ target_lang @ '')'') w0)
         in case openai_chat env text source_lang target_lang of
              Inl e \<Rightarrow> (None, logger ERROR (''Error translating with OpenAI: '' @ str_exn e) w1)
            | Inr None \<Rightarrow> (None, logger ERROR ''Unexpected response from OpenAI'' w1)
            | Inr (Some translated_text) \<Rightarrow> (Some translated_text, w1)))"

definition translate_file_save ::
  "env \<Rightarrow> path \<Rightarrow> string option \<times> world \<Rightarrow> path option \<times> world" where
  \<comment> \<open>\<^verbatim>\<open>translate_file\<close> from the test \<^verbatim>\<open>translated_text is None\<close> to its end\<close>
  "translate_file_save env output_path tw =
     (case tw of
        (None, w) \<Rightarrow> (None, logger ERROR ''Translation failed'' w)
      | (Some translated_text, w) \<Rightarrow>
          (let w1 = logger INFO ''Translation completed'' w in
           case makedirs env output_path of
             Some e \<Rightarrow> (None, logger ERROR (''Error during translation: '' @ str_exn e) w1)
           | None \<Rightarrow>
               (Some output_path,
                logger INFO (''Translation length: '' @ str_nat (py_len translated_text) @
                    '' characters'')
                  (logger INFO (''Translated text saved to '' @ output_path)
                     (write_file output_path translated_text w1)))))"

definition translate_file ::
  "env \<Rightarrow> path \<Rightarrow> path \<Rightarrow> string \<Rightarrow> string \<Rightarrow> string \<Rightarrow> world \<Rightarrow> path option \<times> world" where
  "translate_file env input_path output_path source_lang target_lang engine w0 =
     (let w1 = logger INFO (''Translating file: '' @ input_path @ '' ('' @ source_lang @ '' '' @
                 arrow @ '' '' @ target_lang @ '') using '' @ engine) w0 in
      if \<not> exists (files w1) input_path
      then (None, logger ERROR (''Input file not found: '' @ input_path) w1)
      else (case read_file (files w1) input_path of
              Inl e \<Rightarrow> (None, logger ERROR (''Error during translation: '' @ str_exn e) w1)
            | Inr text \<Rightarrow>
                (let w2 = logger INFO (''Loaded text from '' @ input_path @ '' ('' @
                            str_nat (py_len text) @ '' characters)'') w1 in
                 if lower engine = ''google''
                 then translate_file_save env output_path
                        (translate_text_google env text source_lang target_lang w2)
                 else if lower engine = ''openai''
                 then translate_file_save env output_path
                        (translate_text_openai env text source_lang target_lang w2)
                 else (None, logger ERROR (''Unknown translation engine: '' @ engine) w2))))"

section \<open>Muxer (\<^verbatim>\<open>utils/video_merger.py\<close>)\<close>

definition merge_ffmpeg_except :: "exn \<Rightarrow> world \<Rightarrow> (exn + path option) \<times> world" where
  "merge_ffmpeg_except e w =
     (case e of
        FileNotFoundError _ \<Rightarrow> (Inr None, logger ERROR ffmpeg_not_found w)
      | _ \<Rightarrow> (Inr None,
               logger ERROR (''Unexpected error during video/audio merging: '' @ str_exn e) w))"

definition merge_cmd :: "path \<Rightarrow> path \<Rightarrow> path \<Rightarrow> string list" where
  "merge_cmd video_path audio_path output_path =
     [''ffmpeg'', ''-y'', ''-i'', video_path, ''-i'', audio_path,
      ''-map'', ''0:v:0'', ''-map'', ''1:a:0'', ''-c:v'', ''copy'', ''-c:a'', ''aac'',
      ''-b:a'', ''192k'', ''-shortest'', output_path]"

definition merge_video_audio_ffmpeg ::
  "env \<Rightarrow> path \<Rightarrow> path \<Rightarrow> path \<Rightarrow> world \<Rightarrow> (exn + path option) \<times> world" where
  \<comment> \<open>the result is a sum so that the caller's \<^verbatim>\<open>except Exception\<close> has a case to match;
      every statement that can raise stands inside this function's own \<^verbatim>\<open>try\<close>\<close>
  "merge_video_audio_ffmpeg env video_path audio_path output_path w0 =
     (let w1 = logger INFO (''Merging video and audio using ffmpeg: '' @ video_path @ '' + '' @
                 audio_path) w0 in
      if \<not> exists (files w1) video_path
      then (Inr None, logger ERROR (''Video file not found: '' @ video_path) w1)
      else if \<not> exists (files w1) audio_path
      then (Inr None, logger ERROR (''Audio file not found: '' @ audio_path) w1)
      else (case makedirs env output_path of
              Some e \<Rightarrow> merge_ffmpeg_except e w1
            | None \<Rightarrow>
                (let cmd = merge_cmd video_path audio_path output_path;
                     w2 = logger DEBUG (''Running command: '' @ join_sp cmd) w1;
                     w3 = emit (Invoke FFmpeg cmd) w2
                 in case ffmpeg env cmd (files w3) of
                      Raises e f \<Rightarrow> merge_ffmpeg_except e (w3\<lparr>files := f\<rparr>)
                    | Returns (returncode, stderr) f \<Rightarrow>
                        (let w4 = w3\<lparr>files := f\<rparr> in
                         if returncode \<noteq> 0
                         then (Inr None,
                               logger ERROR (''Error merging video and audio: '' @ stderr) w4)
                         else (case getsize f output_path of
                                 Inl e \<Rightarrow> merge_ffmpeg_except e w4
                               | Inr _ \<Rightarrow>
                                   (Inr (Some output_path),
                                    logger INFO ''Merge time, Size''
                                      (logger INFO
                                         (''Video and audio merged successfully to '' @
                                          output_path)
                                         w4)))))))"

definition merge_moviepy_except :: "exn \<Rightarrow> world \<Rightarrow> path option \<times> world" where
  "merge_moviepy_except e w =
     (None, logger ERROR (''Error merging video and audio with moviepy: '' @ str_exn e) w)"

definition merge_video_audio_moviepy ::
  "env \<Rightarrow> path \<Rightarrow> path \<Rightarrow> path \<Rightarrow> world \<Rightarrow> path option \<times> world" where
  "merge_video_audio_moviepy env video_path audio_path output_path w0 =
     (let w1 = logger INFO (''Merging video and audio using moviepy: '' @ video_path @ '' + '' @
                 audio_path) w0 in
      if \<not> exists (files w1) video_path
      then (None, logger ERROR (''Video file not found: '' @ video_path) w1)
      else if \<not> exists (files w1) audio_path
      then (None, logger ERROR (''Audio file not found: '' @ audio_path) w1)
      else (case makedirs env output_path of
              Some e \<Rightarrow> merge_moviepy_except e w1
            | None \<Rightarrow>
                (let w2 = emit (Invoke MoviePy [video_path, audio_path, output_path]) w1 in
                 case moviepy_open env video_path audio_path (files w2) of
                   Inl e \<Rightarrow> merge_moviepy_except e w2
                 | Inr longer \<Rightarrow>
                     (let w3 = (if longer
                                then logger INFO ''Audio longer than video, trimming audio'' w2
                                else w2)
                      in case moviepy_write env video_path audio_path longer output_path
                                (files w3) of
                           Raises e f \<Rightarrow> merge_moviepy_except e (w3\<lparr>files := f\<rparr>)
                         | Returns _ f \<Rightarrow>
                             (let w4 = w3\<lparr>files := f\<rparr> in
                              case getsize f output_path of
                                Inl e \<Rightarrow> merge_moviepy_except e w4
                              | Inr _ \<Rightarrow>
                                  (Some output_path,
                                   logger INFO ''Merge time, Size''
                                     (logger INFO
                                        (''Video and audio merged successfully to '' @
                                         output_path)
                                        w4)))))))"

definition merge_video_audio ::
  "env \<Rightarrow> path \<Rightarrow> path \<Rightarrow> path \<Rightarrow> bool \<Rightarrow> world \<Rightarrow> path option \<times> world" where
  "merge_video_audio env video_path audio_path output_path use_ffmpeg w0 =
     (if use_ffmpeg
      then (case merge_video_audio_ffmpeg env video_path audio_path output_path w0 of
              (Inr r, w1) \<Rightarrow> (r, w1)
            | (Inl e, w1) \<Rightarrow>
                merge_video_audio_moviepy env video_path audio_path output_path
                  (logger WARNING (''ffmpeg merging failed: '' @ str_exn e @
                     ''. Falling back to moviepy.'') w1))
      else merge_video_audio_moviepy env video_path audio_path output_path w0)"

section \<open>Synthesizer (\<^verbatim>\<open>utils/tts.py\<close>)\<close>

definition no_module :: "string \<Rightarrow> exn" where
  \<comment> \<open>the exception of a failed \<^verbatim>\<open>import\<close>\<close>
  "no_module m = ImportError (''No module named '' @ sq @ m @ sq)"

definition bark_except :: "exn \<Rightarrow> world \<Rightarrow> path option \<times> world" where
  "bark_except e w =
     (case e of
        ImportError _ \<Rightarrow>
          (None, logger ERROR (''Bark TTS not installed. Install using '' @ sq @
                   ''pip install git+https://github.com/suno-ai/bark.git'' @ sq) w)
      | _ \<Rightarrow> (None, logger ERROR (''Error generating speech with Bark: '' @ str_exn e) w))"

definition bark_voice_preset :: "string \<Rightarrow> string" where
  \<comment> \<open>the chain of \<^verbatim>\<open>language.startswith\<close> tests over the default preset\<close>
  "bark_voice_preset language =
     (if take 2 language = ''tr'' then ''v2/tr_speaker_0''
      else if take 2 language = ''fr'' then ''v2/fr_speaker_0''
      else if take 2 language = ''es'' then ''v2/es_speaker_0''
      else if take 2 language = ''de'' then ''v2/de_speaker_0''
      else ''v2/en_speaker_6'')"

definition generate_speech_bark ::
  "env \<Rightarrow> string \<Rightarrow> path \<Rightarrow> string \<Rightarrow> world \<Rightarrow> path option \<times> world" where
  "generate_speech_bark env text output_path language w0 =
     (if \<not> has_bark env then bark_except (no_module ''bark'') w0
      else
        (let voice_preset = bark_voice_preset language;
             w1 = logger INFO (''Generating speech using Bark TTS (voice: '' @ voice_preset @
                    '')'') w0;
             w2 = emit (Invoke Bark [text, voice_preset]) w1
         in case bark_generate env text voice_preset of
              Inl e \<Rightarrow> bark_except e w2
            | Inr audio_array \<Rightarrow>
                (case makedirs env output_path of
                   Some e \<Rightarrow> bark_except e w2
                 | None \<Rightarrow>
                     (let w3 = write_file output_path audio_array w2 in
                      case getsize (files w3) output_path of
                        Inl e \<Rightarrow> bark_except e w3
                      | Inr _ \<Rightarrow>
                          (Some output_path,
                           logger INFO ''Generation time, Size''
                             (logger INFO (''Speech generated successfully to '' @ output_path)
                                w3))))))"

definition coqui_except :: "exn \<Rightarrow> world \<Rightarrow> path option \<times> world" where
  "coqui_except e w =
     (case e of
        ImportError _ \<Rightarrow>
          (None, logger ERROR (''Coqui TTS not installed. Install using '' @ sq @
                   ''pip install TTS'' @ sq) w)
      | _ \<Rightarrow> (None, logger ERROR (''Error generating speech with Coqui TTS: '' @ str_exn e) w))"

definition generate_speech_coqui ::
  "env \<Rightarrow> string \<Rightarrow> path \<Rightarrow> string \<Rightarrow> world \<Rightarrow> path option \<times> world" where
  "generate_speech_coqui env text output_path language w0 =
     (if \<not> has_TTS env then coqui_except (no_module ''TTS'') w0
      else
        (let w1 = logger INFO ''Generating speech using Coqui TTS'' w0;
             w2 = emit (Invoke CoquiTTS [text]) w1
         in case coqui_load env of
              Some e \<Rightarrow> coqui_except e w2
            | None \<Rightarrow>
                (case makedirs env output_path of
                   Some e \<Rightarrow> coqui_except e w2
                 | None \<Rightarrow>
                     (case coqui_tts_to_file env text output_path (files w2) of
                        Raises e f \<Rightarrow> coqui_except e (w2\<lparr>files := f\<rparr>)
                      | Returns _ f \<Rightarrow>
                          (let w3 = w2\<lparr>files := f\<rparr> in
                           case getsize f output_path of
                             Inl e \<Rightarrow> coqui_except e w3
                           | Inr _ \<Rightarrow>
                               (Some output_path,
                                logger INFO ''Generation time, Size''
                                  (logger INFO
                                     (''Speech generated successfully to '' @ output_path)
                                     w3)))))))"

definition resolve_lang :: "(string \<times> string) list \<Rightarrow> string \<Rightarrow> world \<Rightarrow> string \<times> world" where
  \<comment> \<open>the lookup of \<^verbatim>\<open>generate_speech_voice_clone\<close> and \<^verbatim>\<open>generate_speech_gtts\<close>: the code,
      else its first two characters, else English with a warning\<close>
  "resolve_lang lang_mapping language w =
     (case map_of lang_mapping language of
        Some c \<Rightarrow> (c, w)
      | None \<Rightarrow>
          (case map_of lang_mapping (take 2 language) of
             Some c \<Rightarrow> (c, w)
           | None \<Rightarrow>
               (''en'', logger WARNING (''Language '' @ language @
                          '' not found in mapping, defaulting to English'') w)))"

definition your_tts_lang_mapping :: "(string \<times> string) list" where
  "your_tts_lang_mapping =
     [(''en'', ''en''), (''tr'', ''en''), (''fr'', ''fr-fr''), (''es'', ''en''), (''de'', ''en''),
      (''ru'', ''en''), (''zh'', ''en''), (''ja'', ''en''), (''ko'', ''en''), (''ar'', ''en''),
      (''pt'', ''pt-br'')]"

definition voice_clone_except :: "exn \<Rightarrow> world \<Rightarrow> path option \<times> world" where
  "voice_clone_except e w =
     (case e of
        ImportError _ \<Rightarrow>
          (None, logger ERROR (''Coqui TTS not installed. Install using '' @ sq @
                   ''pip install TTS'' @ sq) w)
      | _ \<Rightarrow> (None, logger ERROR (''Error generating speech with voice cloning: '' @ str_exn e) w))"

definition generate_speech_voice_clone ::
  "env \<Rightarrow> string \<Rightarrow> path \<Rightarrow> path \<Rightarrow> string \<Rightarrow> world \<Rightarrow> path option \<times> world" where
  "generate_speech_voice_clone env text output_path reference_audio_path language w0 =
     (if \<not> has_TTS env then voice_clone_except (no_module ''TTS'') w0
      else
        (let w1 = logger INFO (''Generating speech using voice cloning with reference: '' @
                    reference_audio_path) w0 in
         if \<not> exists (files w1) reference_audio_path
         then (None, logger ERROR (''Reference audio file not found: '' @ reference_audio_path) w1)
         else
           (case resolve_lang your_tts_lang_mapping language w1 of
              (tts_lang, w2) \<Rightarrow>
                (let w3 = logger INFO (''Using language code '' @ sq @ tts_lang @ sq @
                            '' for YourTTS voice cloning'') w2;
                     w4 = emit (Invoke YourTTS [text, reference_audio_path, tts_lang]) w3
                 in case your_tts_load env of
                      Some e \<Rightarrow> voice_clone_except e w4
                    | None \<Rightarrow>
                        (case makedirs env output_path of
                           Some e \<Rightarrow> voice_clone_except e w4
                         | None \<Rightarrow>
                             (let w5 = logger INFO
                                   (''Starting voice cloning generation with language: '' @
                                    tts_lang) w4
                              in case your_tts_to_file env text output_path reference_audio_path
                                        tts_lang (files w5) of
                                   Raises e f \<Rightarrow> voice_clone_except e (w5\<lparr>files := f\<rparr>)
                                 | Returns _ f \<Rightarrow>
                                     (let w6 = w5\<lparr>files := f\<rparr> in
                                      case getsize f output_path of
                                        Inl e \<Rightarrow> voice_clone_except e w6
                                      | Inr _ \<Rightarrow>
                                          (Some output_path,
                                           logger INFO ''Generation time, Size''
                                             (logger INFO
                                                (''Voice cloned speech generated successfully to ''
                                                 @ output_path)
                                                w6)))))))))"

definition gtts_lang_mapping :: "(string \<times> string) list" where
  "gtts_lang_mapping =
     [(''en'', ''en''), (''tr'', ''tr''), (''fr'', ''fr''), (''es'', ''es''), (''de'', ''de''),
      (''ru'', ''ru''), (''zh'', ''zh-CN''), (''ja'', ''ja''), (''ko'', ''ko''), (''ar'', ''ar'')]"

definition gtts_except :: "exn \<Rightarrow> world \<Rightarrow> path option \<times> world" where
  "gtts_except e w =
     (None, logger ERROR (''Error generating speech with Google TTS: '' @ str_exn e) w)"

definition generate_speech_gtts ::
  "env \<Rightarrow> string \<Rightarrow> path \<Rightarrow> string \<Rightarrow> world \<Rightarrow> path option \<times> world" where
  "generate_speech_gtts env text output_path language w0 =
     (let w1 = logger INFO (''Generating speech using Google TTS (language: '' @ language @
                 '')'') w0
      in case resolve_lang gtts_lang_mapping language w1 of
           (tts_lang, w2) \<Rightarrow>
             (let w3 = emit (Invoke GTTS [text, tts_lang]) w2 in
              case gtts_new env text tts_lang of
                Some e \<Rightarrow> gtts_except e w3
              | None \<Rightarrow>
                  (case makedirs env output_path of
                     Some e \<Rightarrow> gtts_except e w3
                   | None \<Rightarrow>
                       (case gtts_save env text tts_lang output_path (files w3) of
                          Raises e f \<Rightarrow> gtts_except e (w3\<lparr>files := f\<rparr>)
                        | Returns _ f \<Rightarrow>
                            (let w4 = w3\<lparr>files := f\<rparr> in
                             case getsize f output_path of
                               Inl e \<Rightarrow> gtts_except e w4
                             | Inr _ \<Rightarrow>
                                 (Some output_path,
                                  logger INFO ''Generation time, Size''
                                    (logger INFO
                                       (''Speech generated successfully to '' @ output_path)
                                       w4)))))))"

definition text_to_speech ::
  "env \<Rightarrow> path \<Rightarrow> path \<Rightarrow> string \<Rightarrow> string \<Rightarrow> path option \<Rightarrow> world \<Rightarrow> path option \<times> world" where
  "text_to_speech env input_path output_path language engine reference_audio w0 =
     (let w1 = logger INFO (''Converting text to speech: '' @ input_path @ '' using '' @ engine @
                 '' engine'') w0 in
      if \<not> exists (files w1) input_path
      then (None, logger ERROR (''Input file not found: '' @ input_path) w1)
      else (case read_file (files w1) input_path of
              Inl e \<Rightarrow>
                (None, logger ERROR (''Error during text-to-speech conversion: '' @ str_exn e) w1)
            | Inr text \<Rightarrow>
                (let w2 = logger INFO (''Loaded text from '' @ input_path @ '' ('' @
                            str_nat (py_len text) @ '' characters)'') w1 in
                 if lower engine = ''bark''
                 then generate_speech_bark env text output_path language w2
                 else if lower engine = ''coqui''
                 then generate_speech_coqui env text output_path language w2
                 else if lower engine = ''gtts''
                 then generate_speech_gtts env text output_path language w2
                 else if lower engine = ''voice_clone''
                 then (case reference_audio of
                         Some r \<Rightarrow>
                           if r \<noteq> [] \<and> exists (files w2) r
                           then generate_speech_voice_clone env text output_path r language w2
                           else generate_speech_gtts env text output_path language
                                  (logger ERROR ''Voice cloning requires a valid reference audio file. Falling back to Google TTS.'' w2)
                       | None \<Rightarrow>
                           generate_speech_gtts env text output_path language
                             (logger ERROR ''Voice cloning requires a valid reference audio file. Falling back to Google TTS.'' w2))
                 else generate_speech_gtts env text output_path language
                        (logger INFO ''Falling back to Google TTS''
                           (logger ERROR (''Unknown TTS engine: '' @ engine) w2)))))"

section \<open>Voice cloning (\<^verbatim>\<open>utils/voice_cloner.py\<close>, \<^verbatim>\<open>utils/voice_cloner_fallback.py\<close>)\<close>

definition xtts_lang_mapping :: "(string \<times> string) list" where
  \<comment> \<open>the table of both XTTS call sites\<close>
  "xtts_lang_mapping =
     [(''en'', ''en''), (''fr'', ''fr''), (''tr'', ''tr''), (''es'', ''es''), (''it'', ''it''),
      (''de'', ''de''), (''pt'', ''pt''), (''pl'', ''pl''), (''ru'', ''ru''), (''nl'', ''nl''),
      (''cs'', ''cs''), (''ar'', ''ar''), (''zh'', ''zh-cn''), (''ja'', ''ja''), (''ko'', ''ko''),
      (''hu'', ''hu'')]"

definition fallback_lang_mapping :: "(string \<times> string) list" where
  \<comment> \<open>the table of \<^verbatim>\<open>clone_voice_fallback\<close>\<close>
  "fallback_lang_mapping =
     [(''en'', ''en''), (''fr'', ''fr''), (''tr'', ''tr''), (''es'', ''es''), (''it'', ''it''),
      (''de'', ''de''), (''pt'', ''pt''), (''pl'', ''pl''), (''ru'', ''ru''), (''nl'', ''nl''),
      (''cs'', ''cs''), (''ar'', ''ar''), (''zh'', ''zh-CN''), (''ja'', ''ja''), (''ko'', ''ko''),
      (''hu'', ''hu'')]"

definition dict_get :: "(string \<times> string) list \<Rightarrow> string \<Rightarrow> string \<Rightarrow> string" where
  \<comment> \<open>\<^verbatim>\<open>d.get(k, default)\<close>\<close>
  "dict_get d k dflt = (case map_of d k of Some v \<Rightarrow> v | None \<Rightarrow> dflt)"

definition str_opt :: "path option \<Rightarrow> string" where
  \<comment> \<open>a path or \<^verbatim>\<open>None\<close> inside an f-string\<close>
  "str_opt p = (case p of None \<Rightarrow> ''None'' | Some s \<Rightarrow> s)"

definition ensure_dir :: "env \<Rightarrow> path \<Rightarrow> exn + path" where
  \<comment> \<open>\<^verbatim>\<open>os.makedirs(os.path.dirname(p), exist_ok=True)\<close> before a \<^verbatim>\<open>try\<close>: it raises or
      the path stands\<close>
  "ensure_dir env p = (case makedirs env p of Some e \<Rightarrow> Inl e | None \<Rightarrow> Inr p)"

definition resolve_output :: "env \<Rightarrow> string \<Rightarrow> path option \<Rightarrow> exn + path" where
  \<comment> \<open>\<^verbatim>\<open>if not output_path:\<close> make the outputs directory and a path in it named after the
      time; then make the directory of the output path (the same one, in that case)\<close>
  "resolve_output env name output_path =
     (if truthy output_path then ensure_dir env (str_opt output_path)
      else (case ensure_dir env (OUTPUTS_DIR env @ ''/'' @ name) of
              Inl e \<Rightarrow> Inl e
            | Inr p \<Rightarrow> ensure_dir env p))"

definition xtts_except :: "exn \<Rightarrow> world \<Rightarrow> (exn + path option) \<times> world" where
  "xtts_except e w =
     (case e of
        ImportError _ \<Rightarrow>
          (Inr None, logger ERROR (''TTS library not installed. Install using '' @ sq @
                       ''pip install TTS'' @ sq) w)
      | _ \<Rightarrow> (Inr None, logger ERROR (''Error in voice cloning: '' @ str_exn e) w))"

definition clone_voice_and_speak_xtts ::
  "env \<Rightarrow> string \<Rightarrow> path \<Rightarrow> string \<Rightarrow> path option \<Rightarrow> world \<Rightarrow> (exn + path option) \<times> world" where
  \<comment> \<open>\<^verbatim>\<open>clone_voice_and_speak\<close> of \<^verbatim>\<open>utils/voice_cloner.py\<close>\<close>
  "clone_voice_and_speak_xtts env text speaker_wav_path target_lang output_path0 w0 =
     (let w1 = logger INFO (''Target language: '' @ target_lang @ '', Output path: '' @
                 str_opt output_path0)
                 (logger INFO (''Starting XTTS voice cloning from sample: '' @ speaker_wav_path)
                    w0) in
      if \<not> exists (files w1) speaker_wav_path
      then (Inr None, logger ERROR (''Speaker audio sample not found: '' @ speaker_wav_path) w1)
      else (case resolve_output env (''xtts_cloned_'' @ str_nat (time_now env) @ ''.wav'')
                   output_path0 of
              Inl e \<Rightarrow> (Inl e, w1)
            | Inr output_path \<Rightarrow>
                (let xtts_lang = dict_get xtts_lang_mapping (lower target_lang) ''en'';
                     w2 = logger INFO (''Using language code '' @ sq @ xtts_lang @ sq @
                            '' for XTTS'') w1;
                     use_gpu = cuda env;
                     w3 = logger INFO (''GPU acceleration: '' @
                            (if use_gpu then ''Enabled'' else ''Disabled'')) w2
                 in if \<not> has_TTS env then xtts_except (no_module ''TTS'') w3
                    else
                      (let w4 = emit (Invoke XTTS [text, speaker_wav_path, xtts_lang]) w3 in
                       case xtts_load env use_gpu of
                         Some e \<Rightarrow> xtts_except e w4
                       | None \<Rightarrow>
                           (let w5 = logger INFO ''Generating speech with cloned voice...''
                                       (logger INFO
                                          ''Model loaded: tts_models/multilingual/multi-dataset/xtts_v2''
                                          w4)
                            in case xtts_to_file env text (Some output_path) speaker_wav_path
                                      xtts_lang (files w5) of
                                 Raises e f \<Rightarrow> xtts_except e (w5\<lparr>files := f\<rparr>)
                               | Returns _ f \<Rightarrow>
                                   (let w6 = w5\<lparr>files := f\<rparr> in
                                    case getsize f output_path of
                                      Inl e \<Rightarrow> xtts_except e w6
                                    | Inr _ \<Rightarrow>
                                        (Inr (Some output_path),
                                         logger INFO (''Generated audio saved to: '' @ output_path)
                                           (logger INFO ''Voice cloning completed'' w6))))))))"

definition clone_voice_fallback ::
  "env \<Rightarrow> string \<Rightarrow> string \<Rightarrow> path option \<Rightarrow> world \<Rightarrow> (exn + path option) \<times> world" where
  "clone_voice_fallback env text target_lang output_path0 w0 =
     (let w1 = logger INFO (''Output path: '' @ str_opt output_path0)
                 (logger INFO (''Starting fallback TTS for language: '' @ target_lang) w0)
      in case resolve_output env (''gtts_'' @ str_nat (time_now env) @ ''.mp3'') output_path0 of
           Inl e \<Rightarrow> (Inl e, w1)
         | Inr output_path \<Rightarrow>
             (let gtts_lang = dict_get fallback_lang_mapping (lower target_lang) ''en'';
                  w2 = logger INFO (''Using language code '' @ sq @ gtts_lang @ sq @
                         '' for gTTS'') w1;
                  w3 = emit (Invoke GTTS [text, gtts_lang])
                         (logger INFO ''Generating speech with gTTS...'' w2);
                  failed = (\<lambda>e w. (Inr None,
                              logger ERROR (''Error in fallback speech generation: '' @ str_exn e)
                                w))
              in case gtts_new env text gtts_lang of
                   Some e \<Rightarrow> failed e w3
                 | None \<Rightarrow>
                     (case gtts_save env text gtts_lang output_path (files w3) of
                        Raises e f \<Rightarrow> failed e (w3\<lparr>files := f\<rparr>)
                      | Returns _ f \<Rightarrow>
                          (let w4 = w3\<lparr>files := f\<rparr> in
                           case getsize f output_path of
                             Inl e \<Rightarrow> failed e w4
                           | Inr _ \<Rightarrow>
                               (Inr (Some output_path),
                                logger INFO (''Generated audio saved to: '' @ output_path)
                                  (logger INFO ''Speech generation completed'' w4))))))"

definition clone_voice_and_speak ::
  "env \<Rightarrow> string \<Rightarrow> path option \<Rightarrow> string \<Rightarrow> path option \<Rightarrow> world
     \<Rightarrow> (exn + path option) \<times> world" where
  \<comment> \<open>\<^verbatim>\<open>clone_voice_and_speak\<close> of \<^verbatim>\<open>utils/voice_cloner_fallback.py\<close>, the one \<^verbatim>\<open>main.py\<close> imports\<close>
  "clone_voice_and_speak env text speaker_wav_path target_lang output_path w0 =
     (let w1 = logger INFO ''Attempting to generate speech using fallback method...'' w0;
          to_gtts = (\<lambda>w. clone_voice_fallback env text target_lang output_path
                             (logger INFO ''Falling back to gTTS...'' w))
      in if \<not> has_TTS env
         then to_gtts (logger WARNING (''Could not initialize TTS model: '' @
                         str_exn (no_module ''TTS'')) w1)
         else
           (let w2 = logger INFO (if cuda env then ''GPU is available, using CUDA''
                                  else ''GPU not available, using CPU'')
                       (logger INFO ''Attempting to load XTTS model...''
                          (logger INFO ''Using PyTorch'' w1))
            in case speaker_wav_path of
                 None \<Rightarrow> clone_voice_fallback env text target_lang output_path w2
               | Some speaker \<Rightarrow>
                   if speaker \<noteq> [] \<and> exists (files w2) speaker
                   then
                     (let xtts_lang = dict_get xtts_lang_mapping (lower target_lang) ''en'';
                          w3 = emit (Invoke XTTS [text, speaker, xtts_lang]) w2;
                          failed = (\<lambda>e w. to_gtts (logger WARNING
                                      (''XTTS voice cloning failed: '' @ str_exn e) w))
                      in case xtts_load env (cuda env) of
                           Some e \<Rightarrow> failed e w3
                         | None \<Rightarrow>
                             (case xtts_to_file env text output_path speaker xtts_lang
                                     (files w3) of
                                Raises e f \<Rightarrow> failed e (w3\<lparr>files := f\<rparr>)
                              | Returns _ f \<Rightarrow>
                                  (Inr output_path,
                                   logger INFO (''XTTS voice cloning successful: '' @
                                      str_opt output_path) (w3\<lparr>files := f\<rparr>))))
                   else clone_voice_fallback env text target_lang output_path w2))"

section \<open>Orchestrator (\<^verbatim>\<open>main.py\<close>)\<close>

text \<open>
  \<^verbatim>\<open>process_video\<close> is one function of six blocks, each headed by a comment
  \<^verbatim>\<open># Step k\<close>. \<open>step1\<close> to \<open>step6\<close> are the functions from the head of a block to
  the end of the \<^verbatim>\<open>try\<close>; the result is \<open>Inl e\<close> when an exception leaves the block,
  which the handler of \<^verbatim>\<open>process_video\<close> catches. The \<open>StageCall\<close>, \<open>StageReturn\<close> and
  \<open>StageRaised\<close> entries record the call of a stage function and what it gave back;
  the \<open>Handoff\<close> entry at the head of a block records the artifact the block before
  it passed on.
\<close>

definition sep50 :: string where
  \<comment> \<open>\<^verbatim>\<open>"=" * 50\<close>\<close>
  "sep50 = replicate 50 CHR ''=''"

definition step6 :: "env \<Rightarrow> path \<Rightarrow> path \<Rightarrow> world \<Rightarrow> (exn + path option) \<times> world" where
  "step6 env video_path dubbed_audio_path w0 =
     (let w1 = emit (StageCall 6 [video_path, dubbed_audio_path])
                 (emit (Handoff 5 dubbed_audio_path (files w0 dubbed_audio_path)) w0)
      in case merge_video_audio env video_path dubbed_audio_path (OUTPUT_VIDEO_PATH env) True w1 of
           (output_path, w2) \<Rightarrow>
             (let w3 = emit (StageReturn 6 output_path) w2 in
              if \<not> truthy output_path
              then (Inr None, logger ERROR ''Failed to merge video and audio. Exiting.'' w3)
              else (Inr output_path,
                    logger INFO sep50
                      (logger INFO (''Output video saved to: '' @ str_opt output_path)
                         (logger INFO ''Total processing time''
                            (logger INFO ''AI dubbing process completed successfully!''
                               (logger INFO sep50 w3)))))))"

definition step5_check ::
  "env \<Rightarrow> path \<Rightarrow> path option \<Rightarrow> world \<Rightarrow> (exn + path option) \<times> world" where
  \<comment> \<open>block 5 from \<^verbatim>\<open>if not dubbed_audio_path\<close> on\<close>
  "step5_check env video_path dubbed_audio_path w0 =
     (let w1 = emit (StageReturn 5 dubbed_audio_path) w0 in
      case dubbed_audio_path of
        None \<Rightarrow> (Inr None, logger ERROR ''Failed to generate speech. Exiting.'' w1)
      | Some p \<Rightarrow>
          if p = [] then (Inr None, logger ERROR ''Failed to generate speech. Exiting.'' w1)
          else step6 env video_path p w1)"

definition step5 ::
  "env \<Rightarrow> string \<Rightarrow> string \<Rightarrow> path option \<Rightarrow> path \<Rightarrow> path \<Rightarrow> world
     \<Rightarrow> (exn + path option) \<times> world" where
  "step5 env target_lang tts_engine reference_audio video_path translated_path w0 =
     (if tts_engine = ''voice_clone'' \<and> truthy reference_audio
      then (case read_file (files w0) translated_path of
              Inl e \<Rightarrow> (Inl e, w0)
            | Inr translated_text \<Rightarrow>
                (let w1 = emit (StageCall 5 [translated_path])
                            (emit (Handoff 4 translated_path (files w0 translated_path)) w0) in
                 case clone_voice_and_speak env translated_text reference_audio target_lang
                        (Some (TEMP_DUBBED_AUDIO_PATH env)) w1 of
                   (Inl e, w2) \<Rightarrow> (Inl e, emit (StageRaised 5 e) w2)
                 | (Inr dubbed_audio_path, w2) \<Rightarrow>
                     step5_check env video_path dubbed_audio_path w2))
      else
        (let w1 = emit (StageCall 5 [translated_path])
                    (emit (Handoff 4 translated_path (files w0 translated_path)) w0) in
         case text_to_speech env translated_path (TEMP_DUBBED_AUDIO_PATH env) target_lang
                tts_engine reference_audio w1 of
           (dubbed_audio_path, w2) \<Rightarrow> step5_check env video_path dubbed_audio_path w2))"

definition step4 ::
  "env \<Rightarrow> string \<Rightarrow> string \<Rightarrow> string \<Rightarrow> path option \<Rightarrow> path \<Rightarrow> path \<Rightarrow> world
     \<Rightarrow> (exn + path option) \<times> world" where
  "step4 env source_lang target_lang tts_engine reference_audio video_path transcript_path w0 =
     (let w1 = emit (StageCall 4 [transcript_path])
                 (emit (Handoff 3 transcript_path (files w0 transcript_path)) w0) in
      case translate_file env transcript_path (TEMP_TRANSLATED_PATH env) source_lang target_lang
             TRANSLATION_ENGINE w1 of
        (translated_path, w2) \<Rightarrow>
          (let w3 = emit (StageReturn 4 translated_path) w2 in
           case translated_path of
             None \<Rightarrow> (Inr None, logger ERROR ''Failed to translate text. Exiting.'' w3)
           | Some p \<Rightarrow>
               if p = [] then (Inr None, logger ERROR ''Failed to translate text. Exiting.'' w3)
               else (case read_file (files w3) p of
                       Inl e \<Rightarrow> (Inl e, w3)
                     | Inr translation \<Rightarrow>
                         step5 env target_lang tts_engine reference_audio video_path p w3)))"

definition step3 ::
  "env \<Rightarrow> string \<Rightarrow> string \<Rightarrow> string \<Rightarrow> path option \<Rightarrow> path \<Rightarrow> path \<Rightarrow> world
     \<Rightarrow> (exn + path option) \<times> world" where
  "step3 env source_lang target_lang tts_engine reference_audio video_path audio_path w0 =
     (let w1 = emit (StageCall 3 [audio_path])
                 (emit (Handoff 2 audio_path (files w0 audio_path)) w0) in
      case transcribe_audio env audio_path (TEMP_TRANSCRIPT_PATH env) WHISPER_MODEL source_lang
             w1 of
        (transcript_path, w2) \<Rightarrow>
          (let w3 = emit (StageReturn 3 transcript_path) w2 in
           case transcript_path of
             None \<Rightarrow> (Inr None, logger ERROR ''Failed to transcribe audio. Exiting.'' w3)
           | Some p \<Rightarrow>
               if p = [] then (Inr None, logger ERROR ''Failed to transcribe audio. Exiting.'' w3)
               else (case read_file (files w3) p of
                       Inl e \<Rightarrow> (Inl e, w3)
                     | Inr transcript \<Rightarrow>
                         step4 env source_lang target_lang tts_engine reference_audio
                           video_path p w3)))"

definition step2 ::
  "env \<Rightarrow> string \<Rightarrow> string \<Rightarrow> string \<Rightarrow> path option \<Rightarrow> path \<Rightarrow> world
     \<Rightarrow> (exn + path option) \<times> world" where
  "step2 env source_lang target_lang tts_engine reference_audio video_path w0 =
     (let w1 = emit (StageCall 2 [video_path])
                 (emit (Handoff 1 video_path (files w0 video_path)) w0) in
      case extract_audio env video_path (TEMP_AUDIO_PATH env) 16000 1 w1 of
        (Inl e, w2) \<Rightarrow> (Inl e, emit (StageRaised 2 e) w2)
      | (Inr audio_path, w2) \<Rightarrow>
          (let w3 = emit (StageReturn 2 audio_path) w2 in
           case audio_path of
             None \<Rightarrow> (Inr None, logger ERROR ''Failed to extract audio. Exiting.'' w3)
           | Some p \<Rightarrow>
               if p = [] then (Inr None, logger ERROR ''Failed to extract audio. Exiting.'' w3)
               else step3 env source_lang target_lang tts_engine reference_audio video_path p
                      w3))"

definition step1 ::
  "env \<Rightarrow> string \<Rightarrow> string \<Rightarrow> string \<Rightarrow> string \<Rightarrow> path option \<Rightarrow> world
     \<Rightarrow> (exn + path option) \<times> world" where
  "step1 env youtube_url source_lang target_lang tts_engine reference_audio w0 =
     (let w1 = emit (StageCall 1 []) w0 in
      case download_youtube_video env youtube_url (TEMP_VIDEO_PATH env) ''720p'' w1 of
        (video_path, w2) \<Rightarrow>
          (let w3 = emit (StageReturn 1 video_path) w2 in
           case video_path of
             None \<Rightarrow> (Inr None, logger ERROR ''Failed to download video. Exiting.'' w3)
           | Some p \<Rightarrow>
               if p = [] then (Inr None, logger ERROR ''Failed to download video. Exiting.'' w3)
               else step2 env source_lang target_lang tts_engine reference_audio p w3))"

definition process_video ::
  "env \<Rightarrow> string \<Rightarrow> string \<Rightarrow> string \<Rightarrow> string \<Rightarrow> path option \<Rightarrow> world
     \<Rightarrow> path option \<times> world" where
  "process_video env youtube_url source_lang target_lang tts_engine reference_audio w0 =
     (let w1 = logger INFO sep50
                 (logger INFO (''Source language: '' @ source_lang @ '', Target language: '' @
                     target_lang)
                    (logger INFO (''Starting AI dubbing process for: '' @ youtube_url)
                       (logger INFO sep50 w0)))
      in case step1 env youtube_url source_lang target_lang tts_engine reference_audio w1 of
           (Inl e, w2) \<Rightarrow>
             (None, logger ERROR (''Unexpected error during dubbing process: '' @ str_exn e) w2)
         | (Inr output_path, w2) \<Rightarrow> (output_path, w2))"

section \<open>Properties of traces\<close>

fun engine_event :: "event \<Rightarrow> bool" where
  \<comment> \<open>what a stage function writes: log records and tool invocations\<close>
  "engine_event (Log _ _) = True"
| "engine_event (Invoke _ _) = True"
| "engine_event _ = False"

fun is_log :: "event \<Rightarrow> bool" where
  "is_log (Log _ _) = True"
| "is_log _ = False"

fun is_invoke :: "event \<Rightarrow> bool" where
  "is_invoke (Invoke _ _) = True"
| "is_invoke _ = False"

fun failed_return :: "event \<Rightarrow> bool" where
  \<comment> \<open>a stage gave back a failure: \<^verbatim>\<open>None\<close> (or a path that is false in Python), or it raised\<close>
  "failed_return (StageReturn _ r) = (\<not> truthy r)"
| "failed_return (StageRaised _ _) = True"
| "failed_return _ = False"

fun stops_after_failure :: "event list \<Rightarrow> bool" where
  \<comment> \<open>after the first failure of a stage only log records follow: no stage is called and
      no tool is invoked\<close>
  "stops_after_failure [] = True"
| "stops_after_failure (e # es) =
     (if failed_return e then list_all is_log es else stops_after_failure es)"

fun handoff_nonempty :: "event \<Rightarrow> bool" where
  \<comment> \<open>the artifact handed on is a file, and not an empty one\<close>
  "handoff_nonempty (Handoff _ _ c) = (c \<noteq> None \<and> c \<noteq> Some [])"
| "handoff_nonempty _ = True"

fun handoff_exists :: "bool \<Rightarrow> event \<Rightarrow> bool" where
  \<comment> \<open>the artifact handed on is a file; \<open>vc\<close> says that stage 5 ran the voice cloner, whose
      result is not covered\<close>
  "handoff_exists vc (Handoff k _ c) = ((k = 5 \<and> vc) \<or> c \<noteq> None)"
| "handoff_exists vc _ = True"

definition logs_only :: "world \<Rightarrow> world \<Rightarrow> bool" where
  "logs_only w w' = (\<exists>es. trace w' = trace w @ es \<and> list_all is_log es)"

definition failed :: "exn + path option \<Rightarrow> bool" where
  \<comment> \<open>a block of the orchestrator ended the run: it raised or returned \<^verbatim>\<open>None\<close>\<close>
  "failed r = (case r of Inl _ \<Rightarrow> True | Inr p \<Rightarrow> p = None)"

definition run_ok :: "bool \<Rightarrow> world \<Rightarrow> (exn + path option) \<times> world \<Rightarrow> bool" where
  \<comment> \<open>what the proofs below carry through the six blocks\<close>
  "run_ok vc w rw =
     (\<exists>es. trace (snd rw) = trace w @ es \<and> stops_after_failure es \<and>
           list_all (handoff_exists vc) es \<and>
           ((\<exists>e\<in>set es. failed_return e) \<longrightarrow> failed (fst rw)))"

definition new_events :: "world \<Rightarrow> world \<Rightarrow> event list" where
  \<comment> \<open>the entries a run added to the trace\<close>
  "new_events w w' = drop (length (trace w)) (trace w')"

definition engine_only :: "world \<Rightarrow> world \<Rightarrow> bool" where
  "engine_only w w' = (\<exists>es. trace w' = trace w @ es \<and> list_all engine_event es)"

definition adds :: "(event \<Rightarrow> bool) \<Rightarrow> world \<Rightarrow> world \<Rightarrow> bool" where
  \<comment> \<open>from \<open>w\<close> to \<open>w'\<close> the trace grew, by entries that satisfy \<open>P\<close>\<close>
  "adds P w w' = (\<exists>es. trace w' = trace w @ es \<and> list_all P es)"

fun transcoder_call :: "env \<Rightarrow> event \<Rightarrow> bool" where
  \<comment> \<open>an invocation of ffmpeg is the extraction at 16000 Hz and one channel from the
      downloaded video, or the merge of that video with the dubbed audio; MoviePy is not
      run\<close>
  "transcoder_call env (Invoke t cmd) =
     (if t = FFmpeg
      then cmd = extract_cmd (TEMP_VIDEO_PATH env) (TEMP_AUDIO_PATH env) 16000 1 \<or>
           cmd = merge_cmd (TEMP_VIDEO_PATH env) (TEMP_DUBBED_AUDIO_PATH env)
                   (OUTPUT_VIDEO_PATH env)
      else t \<noteq> MoviePy)"
| "transcoder_call env _ = True"

section \<open>Concrete environments\<close>

definition empty_world :: world where
  "empty_world = \<lparr>files = Map.empty, trace = []\<rparr>"

definition quiet_env :: env where
  \<comment> \<open>every tool works: each writes a fixed content to its output path\<close>
  "quiet_env =
     \<lparr>base_dir = ''/app'',
      openai_api_key = [],
      time_now = 0,
      cuda = False,
      makedirs = (\<lambda>p. None),
      pytube_title = (\<lambda>url. Inr ''clip''),
      pytube_has_resolution = (\<lambda>url res. Inr True),
      pytube_download = (\<lambda>url res out f. Returns () (f(out \<mapsto> ''VIDEO''))),
      yt_dlp = (\<lambda>cmd f. Returns (0, []) (f(cmd ! 4 \<mapsto> ''VIDEO''))),
      ffmpeg = (\<lambda>cmd f. Returns (0, []) (f(last cmd \<mapsto> ''MEDIA''))),
      moviepy_open = (\<lambda>v a f. Inr False),
      moviepy_write = (\<lambda>v a longer out f. Returns () (f(out \<mapsto> ''MOVIE''))),
      whisper_load = (\<lambda>m. None),
      whisper_transcribe = (\<lambda>m a l f. Inr ''hello''),
      google_translate = (\<lambda>t s d. Inr ''merhaba''),
      openai_chat = (\<lambda>t s d. Inr (Some ''merhaba'')),
      has_bark = True,
      has_TTS = True,
      bark_generate = (\<lambda>t v. Inr ''BARK''),
      coqui_load = None,
      coqui_tts_to_file = (\<lambda>t out f. Returns () (f(out \<mapsto> ''COQUI''))),
      your_tts_load = None,
      your_tts_to_file = (\<lambda>t out r l f. Returns () (f(out \<mapsto> ''YOURTTS''))),
      xtts_load = (\<lambda>gpu. None),
      xtts_to_file = (\<lambda>t out r l f.
         Returns () (case out of None \<Rightarrow> f | Some p \<Rightarrow> f(p \<mapsto> ''XTTS''))),
      gtts_new = (\<lambda>t l. None),
      gtts_save = (\<lambda>t l out f. Returns () (f(out \<mapsto> ''SPEECH'')))\<rparr>"

definition ffmpeg_fails_env :: env where
  \<comment> \<open>as \<open>quiet_env\<close>, but ffmpeg exits with code 1 and writes nothing\<close>
  "ffmpeg_fails_env = quiet_env\<lparr>ffmpeg := (\<lambda>cmd f. Returns (1, ''Invalid data'') f)\<rparr>"

definition silent_env :: env where
  \<comment> \<open>as \<open>quiet_env\<close>, but Whisper hears nothing: the transcript is the empty text\<close>
  "silent_env = quiet_env\<lparr>whisper_transcribe := (\<lambda>m a l f. Inr [])\<rparr>"

fun is_handoff :: "event \<Rightarrow> bool" where
  "is_handoff (Handoff _ _ _) = True"
| "is_handoff _ = False"

definition fails_quietly :: "world \<Rightarrow> world \<Rightarrow> bool" where
  \<comment> \<open>nothing happened but logging: the files are untouched, no tool was invoked\<close>
  "fails_quietly w w' = (files w' = files w \<and> list_all is_log (new_events w w'))"

definition empty_video_world :: world where
  \<comment> \<open>a disk whose only file is a video of size 0\<close>
  "empty_video_world = \<lparr>files = [''/app/outputs/temp_video.mp4'' \<mapsto> []], trace = []\<rparr>"

definition media_world :: world where
  \<comment> \<open>a disk holding the downloaded video and the dubbed audio\<close>
  "media_world =
     \<lparr>files = [''/app/outputs/temp_video.mp4'' \<mapsto> ''VIDEO'',
               ''/app/outputs/dubbed_audio.wav'' \<mapsto> ''SPEECH''],
      trace = []\<rparr>"

definition invokes :: "tool \<Rightarrow> event \<Rightarrow> bool" where
  "invokes t e = (case e of Invoke t' _ \<Rightarrow> t' = t | _ \<Rightarrow> False)"

definition pytube_fails_env :: env where
  \<comment> \<open>as \<open>quiet_env\<close>, but pytube raises at the first contact\<close>
  "pytube_fails_env = quiet_env\<lparr>pytube_title := (\<lambda>url. Inl (PytubeError ''HTTP Error 400''))\<rparr>"



definition pytube_records :: "exn \<Rightarrow> event list" where
  \<comment> \<open>the records \<open>pytube_except\<close> writes\<close>
  "pytube_records e =
     (case e of
        PytubeError _ \<Rightarrow>
          [Log ERROR (''Error downloading YouTube video with pytube: '' @ str_exn e),
           Log INFO ''Trying alternative download method...'']
      | _ \<Rightarrow> [Log ERROR (''Unexpected error during download: '' @ str_exn e)])"

definition ref_world :: world where
  \<comment> \<open>a disk holding a reference recording of the speaker\<close>
  "ref_world = \<lparr>files = [''/app/ref.wav'' \<mapsto> ''VOICE''], trace = []\<rparr>"

fun is_warning :: "event \<Rightarrow> bool" where
  "is_warning (Log lvl _) = (lvl = WARNING)"
| "is_warning _ = False"

definition no_warning_added :: "world \<Rightarrow> world \<Rightarrow> bool" where
  "no_warning_added w w' = (\<exists>es. trace w' = trace w @ es \<and> \<not> list_ex is_warning es)"

definition files_of :: "'a outcome \<Rightarrow> fs" where
  \<comment> \<open>the files as a tool left them, whether it returned or raised\<close>
  "files_of r = (case r of Returns _ f \<Rightarrow> f | Raises _ f \<Rightarrow> f)"

definition partial_ffmpeg_env :: env where
  \<comment> \<open>as \<open>quiet_env\<close>, but ffmpeg breaks off: it has written part of the output when it
      exits with code 1\<close>
  "partial_ffmpeg_env =
     quiet_env\<lparr>ffmpeg := (\<lambda>cmd f. Returns (1, ''Conversion failed!'') (f(last cmd \<mapsto> ''PART'')))\<rparr>"

definition translated_world :: world where
  \<comment> \<open>a disk holding the translated text\<close>
  "translated_world = \<lparr>files = [''/app/outputs/translated.txt'' \<mapsto> ''merhaba''], trace = []\<rparr>"

definition result_of :: "'a outcome \<Rightarrow> exn + 'a" where
  \<comment> \<open>what a tool returned or raised\<close>
  "result_of r = (case r of Returns x _ \<Rightarrow> Inr x | Raises e _ \<Rightarrow> Inl e)"

definition overwrites_output :: "env \<Rightarrow> bool" where
  \<comment> \<open>ffmpeg's \<^verbatim>\<open>-y\<close>: what the output path, its last argument, held before bears neither
      on how ffmpeg ends (exit code, stderr) nor on what it writes there; a run that
      does not get to write its output leaves there what it found\<close>
  "overwrites_output env =
     (\<forall>cmd f c. ''-y'' \<in> set cmd \<longrightarrow>
        result_of (ffmpeg env cmd (f(last cmd := c))) = result_of (ffmpeg env cmd f) \<and>
        (files_of (ffmpeg env cmd (f(last cmd := c))) (last cmd) =
           files_of (ffmpeg env cmd f) (last cmd) \<or>
         files_of (ffmpeg env cmd (f(last cmd := c))) (last cmd) = c))"

definition writes_only_output :: "env \<Rightarrow> bool" where
  \<comment> \<open>ffmpeg changes no file but its output\<close>
  "writes_only_output env =
     (\<forall>cmd f p. p \<noteq> last cmd \<longrightarrow> files_of (ffmpeg env cmd f) p = f p)"

definition appending_env :: env where
  \<comment> \<open>as \<open>quiet_env\<close>, but ffmpeg adds its output to what the output path holds\<close>
  "appending_env =
     quiet_env\<lparr>ffmpeg := (\<lambda>cmd f. Returns (0, [])
        (f(last cmd \<mapsto> (case f (last cmd) of None \<Rightarrow> [] | Some c \<Rightarrow> c) @ ''MEDIA'')))\<rparr>"


section \<open>Stage functions only add log records and invocations to the trace\<close>

lemma files_logger [simp]: "files (logger l m w) = files w"
  by (simp add: logger_def)

lemma files_emit [simp]: "files (emit e w) = files w"
  by (simp add: emit_def)

lemma trace_logger [simp]: "trace (logger l m w) = trace w @ [Log l m]"
  by (simp add: logger_def)

lemma trace_emit [simp]: "trace (emit e w) = trace w @ [e]"
  by (simp add: emit_def)

lemma trace_write_file [simp]: "trace (write_file p c w) = trace w"
  by (simp add: write_file_def)

lemma files_write_file [simp]: "files (write_file p c w) = (files w)(p \<mapsto> c)"
  by (simp add: write_file_def)

lemma engine_only_refl: "engine_only w w"
  by (simp add: engine_only_def)

lemma engine_only_logger: "engine_only w w' \<Longrightarrow> engine_only w (logger l m w')"
  by (auto simp: engine_only_def)

lemma engine_only_invoke: "engine_only w w' \<Longrightarrow> engine_only w (emit (Invoke t a) w')"
  by (auto simp: engine_only_def)

lemma engine_only_files: "engine_only w w' \<Longrightarrow> engine_only w (w'\<lparr>files := f\<rparr>)"
  by (auto simp: engine_only_def)

lemma engine_only_write: "engine_only w w' \<Longrightarrow> engine_only w (write_file p c w')"
  by (auto simp: engine_only_def)

lemmas eo = engine_only_refl engine_only_logger engine_only_invoke engine_only_files
  engine_only_write

lemma yt_dlp_except_eo:
  "engine_only w w' \<Longrightarrow> engine_only w (snd (yt_dlp_except e w'))"
  by (cases e) (simp_all add: yt_dlp_except_def eo)

lemma download_video_with_yt_dlp_eo:
  "engine_only w w' \<Longrightarrow> engine_only w (snd (download_video_with_yt_dlp env u p r w'))"
  unfolding download_video_with_yt_dlp_def Let_def
  by (auto split: option.splits outcome.splits sum.splits prod.splits intro!: eo yt_dlp_except_eo)

lemma pytube_except_eo:
  "engine_only w w' \<Longrightarrow> engine_only w (pytube_except e w')"
  by (cases e) (simp_all add: pytube_except_def eo)

lemma pytube_try_eo:
  "engine_only w w' \<Longrightarrow> engine_only w (snd (pytube_try env u p r w'))"
  unfolding pytube_try_def Let_def
  by (auto split: option.splits outcome.splits sum.splits intro!: eo)

lemma download_youtube_video_eo:
  "engine_only w w' \<Longrightarrow> engine_only w (snd (download_youtube_video env u p r w'))"
proof -
  assume h: "engine_only w w'"
  have t: "engine_only w (snd (pytube_try env u p r
      (emit (Invoke Pytube [u]) (logger INFO (''Downloading YouTube video: '' @ u) w'))))"
    by (intro pytube_try_eo eo h)
  show ?thesis
    unfolding download_youtube_video_def Let_def using t
    by (auto split: prod.splits sum.splits
        intro!: download_video_with_yt_dlp_eo pytube_except_eo)
qed

lemma extract_except_eo:
  "engine_only w w' \<Longrightarrow> engine_only w (snd (extract_except e w'))"
  by (cases e) (simp_all add: extract_except_def eo)

lemma extract_audio_eo:
  "engine_only w w' \<Longrightarrow> engine_only w (snd (extract_audio env v a sr ch w'))"
  unfolding extract_audio_def Let_def
  by (auto split: option.splits outcome.splits sum.splits prod.splits
      intro!: eo extract_except_eo)

lemma transcribe_audio_eo:
  "engine_only w w' \<Longrightarrow> engine_only w (snd (transcribe_audio env a p m l w'))"
  unfolding transcribe_audio_def transcribe_except_def Let_def
  by (auto split: option.splits sum.splits intro!: eo)

lemma translate_text_google_eo:
  "engine_only w w' \<Longrightarrow> engine_only w (snd (translate_text_google env t s d w'))"
  unfolding translate_text_google_def Let_def
  by (auto split: sum.splits intro!: eo)

lemma translate_text_openai_eo:
  "engine_only w w' \<Longrightarrow> engine_only w (snd (translate_text_openai env t s d w'))"
  unfolding translate_text_openai_def Let_def
  by (auto split: sum.splits option.splits intro!: eo)

lemma translate_file_save_eo:
  "engine_only w (snd tw) \<Longrightarrow> engine_only w (snd (translate_file_save env p tw))"
  unfolding translate_file_save_def Let_def
  by (auto split: prod.splits option.splits intro!: eo)

lemma translate_file_eo:
  "engine_only w w' \<Longrightarrow> engine_only w (snd (translate_file env i p s d g w'))"
  unfolding translate_file_def Let_def
  by (auto split: sum.splits
      intro!: eo translate_file_save_eo translate_text_google_eo translate_text_openai_eo)

lemma merge_ffmpeg_except_eo:
  "engine_only w w' \<Longrightarrow> engine_only w (snd (merge_ffmpeg_except e w'))"
  by (cases e) (simp_all add: merge_ffmpeg_except_def eo)

lemma merge_video_audio_ffmpeg_eo:
  "engine_only w w' \<Longrightarrow> engine_only w (snd (merge_video_audio_ffmpeg env v a p w'))"
  unfolding merge_video_audio_ffmpeg_def Let_def
  by (auto split: option.splits outcome.splits sum.splits prod.splits
      intro!: eo merge_ffmpeg_except_eo)

lemma merge_video_audio_moviepy_eo:
  "engine_only w w' \<Longrightarrow> engine_only w (snd (merge_video_audio_moviepy env v a p w'))"
  unfolding merge_video_audio_moviepy_def merge_moviepy_except_def Let_def
  by (auto split: option.splits outcome.splits sum.splits prod.splits intro!: eo)

lemma merge_video_audio_eo:
  "engine_only w w' \<Longrightarrow> engine_only w (snd (merge_video_audio env v a p u w'))"
proof -
  assume h: "engine_only w w'"
  have f: "engine_only w (snd (merge_video_audio_ffmpeg env v a p w'))"
    by (rule merge_video_audio_ffmpeg_eo [OF h])
  show ?thesis
    unfolding merge_video_audio_def
    using f h
    by (auto split: prod.splits sum.splits intro!: eo merge_video_audio_moviepy_eo)
qed

lemma bark_except_eo: "engine_only w w' \<Longrightarrow> engine_only w (snd (bark_except e w'))"
  by (cases e) (simp_all add: bark_except_def eo)

lemma coqui_except_eo: "engine_only w w' \<Longrightarrow> engine_only w (snd (coqui_except e w'))"
  by (cases e) (simp_all add: coqui_except_def eo)

lemma voice_clone_except_eo:
  "engine_only w w' \<Longrightarrow> engine_only w (snd (voice_clone_except e w'))"
  by (cases e) (simp_all add: voice_clone_except_def eo)

lemma xtts_except_eo: "engine_only w w' \<Longrightarrow> engine_only w (snd (xtts_except e w'))"
  by (cases e) (simp_all add: xtts_except_def eo)

lemma resolve_lang_eo:
  "engine_only w w' \<Longrightarrow> engine_only w (snd (resolve_lang t l w'))"
  unfolding resolve_lang_def by (auto split: option.splits intro!: eo)

lemma files_resolve_lang [simp]: "files (snd (resolve_lang t l w)) = files w"
  unfolding resolve_lang_def by (auto split: option.splits)

lemma generate_speech_bark_eo:
  "engine_only w w' \<Longrightarrow> engine_only w (snd (generate_speech_bark env t p l w'))"
  unfolding generate_speech_bark_def Let_def
  by (auto split: option.splits sum.splits intro!: eo bark_except_eo)

lemma generate_speech_coqui_eo:
  "engine_only w w' \<Longrightarrow> engine_only w (snd (generate_speech_coqui env t p l w'))"
  unfolding generate_speech_coqui_def Let_def
  by (auto split: option.splits sum.splits outcome.splits intro!: eo coqui_except_eo)

lemma generate_speech_voice_clone_eo:
  "engine_only w w' \<Longrightarrow> engine_only w (snd (generate_speech_voice_clone env t p r l w'))"
proof -
  assume h: "engine_only w w'"
  have r: "engine_only w (snd (resolve_lang your_tts_lang_mapping l
             (logger INFO (''Generating speech using voice cloning with reference: '' @ r) w')))"
    by (intro resolve_lang_eo eo h)
  show ?thesis
    unfolding generate_speech_voice_clone_def Let_def
    using r h
    by (auto split: option.splits sum.splits outcome.splits prod.splits
        intro!: eo voice_clone_except_eo)
qed

lemma generate_speech_gtts_eo:
  "engine_only w w' \<Longrightarrow> engine_only w (snd (generate_speech_gtts env t p l w'))"
proof -
  assume h: "engine_only w w'"
  have r: "engine_only w (snd (resolve_lang gtts_lang_mapping l
             (logger INFO (''Generating speech using Google TTS (language: '' @ l @ '')'') w')))"
    by (intro resolve_lang_eo eo h)
  show ?thesis
    unfolding generate_speech_gtts_def gtts_except_def Let_def
    using r h
    by (auto split: option.splits sum.splits outcome.splits prod.splits intro!: eo)
qed

lemma text_to_speech_eo:
  "engine_only w w' \<Longrightarrow> engine_only w (snd (text_to_speech env i p l g r w'))"
  unfolding text_to_speech_def Let_def
  by (auto split: option.splits sum.splits
      intro!: eo generate_speech_bark_eo generate_speech_coqui_eo generate_speech_gtts_eo
        generate_speech_voice_clone_eo)

lemma clone_voice_fallback_eo:
  "engine_only w w' \<Longrightarrow> engine_only w (snd (clone_voice_fallback env t l p w'))"
  unfolding clone_voice_fallback_def Let_def
  by (auto split: option.splits sum.splits outcome.splits intro!: eo)

lemma clone_voice_and_speak_eo:
  "engine_only w w' \<Longrightarrow> engine_only w (snd (clone_voice_and_speak env t s l p w'))"
  unfolding clone_voice_and_speak_def Let_def
  by (auto split: option.splits sum.splits outcome.splits
      intro!: eo clone_voice_fallback_eo)

lemma clone_voice_and_speak_xtts_eo:
  "engine_only w w' \<Longrightarrow> engine_only w (snd (clone_voice_and_speak_xtts env t s l p w'))"
  unfolding clone_voice_and_speak_xtts_def Let_def
  by (auto split: option.splits sum.splits outcome.splits
      intro!: eo xtts_except_eo)

lemma yt_dlp_except_fst [simp]: "fst (yt_dlp_except e w) = None"
  by (cases e) (simp_all add: yt_dlp_except_def)

lemma extract_except_fst [simp]: "fst (extract_except e w) = Inr None"
  by (cases e) (simp_all add: extract_except_def)

lemma merge_ffmpeg_except_fst [simp]: "fst (merge_ffmpeg_except e w) = Inr None"
  by (cases e) (simp_all add: merge_ffmpeg_except_def)

lemma bark_except_fst [simp]: "fst (bark_except e w) = None"
  by (cases e) (simp_all add: bark_except_def)

lemma coqui_except_fst [simp]: "fst (coqui_except e w) = None"
  by (cases e) (simp_all add: coqui_except_def)

lemma voice_clone_except_fst [simp]: "fst (voice_clone_except e w) = None"
  by (cases e) (simp_all add: voice_clone_except_def)

lemma xtts_except_fst [simp]: "fst (xtts_except e w) = Inr None"
  by (cases e) (simp_all add: xtts_except_def)

lemma fst_eqD: "f = (a, b) \<Longrightarrow> fst f = a \<and> snd f = b"
  by simp

lemma download_video_with_yt_dlp_some:
  "download_video_with_yt_dlp env u out r w = (Some p, w') \<Longrightarrow> p = out \<and> files w' p \<noteq> None"
  unfolding download_video_with_yt_dlp_def Let_def getsize_def
  by (auto split: option.splits outcome.splits sum.splits prod.splits if_splits dest!: fst_eqD)

lemma pytube_try_some:
  "pytube_try env u out r w = (Inr p, w') \<Longrightarrow> p = out \<and> files w' p \<noteq> None"
  unfolding pytube_try_def Let_def getsize_def
  by (auto split: option.splits outcome.splits sum.splits if_splits)

lemma download_youtube_video_some:
  "download_youtube_video env u out r w = (Some p, w') \<Longrightarrow> p = out \<and> files w' p \<noteq> None"
  unfolding download_youtube_video_def Let_def
  by (auto split: prod.splits sum.splits
      dest!: pytube_try_some download_video_with_yt_dlp_some)

lemma extract_audio_some:
  "extract_audio env v out sr ch w = (Inr (Some p), w') \<Longrightarrow> p = out \<and> files w' p \<noteq> None"
  unfolding extract_audio_def Let_def getsize_def
  by (auto split: option.splits outcome.splits sum.splits prod.splits if_splits dest!: fst_eqD)

lemma transcribe_audio_some:
  "transcribe_audio env a out m l w = (Some p, w') \<Longrightarrow> p = out \<and> files w' p \<noteq> None"
  unfolding transcribe_audio_def transcribe_except_def Let_def
  by (auto split: option.splits sum.splits if_splits)

lemma translate_file_save_some:
  "translate_file_save env out tw = (Some p, w') \<Longrightarrow> p = out \<and> files w' p \<noteq> None"
  unfolding translate_file_save_def Let_def
  by (auto split: option.splits prod.splits)

lemma translate_file_some:
  "translate_file env i out s d g w = (Some p, w') \<Longrightarrow> p = out \<and> files w' p \<noteq> None"
  unfolding translate_file_def Let_def
  by (auto split: sum.splits if_splits dest!: translate_file_save_some)

lemma generate_speech_bark_some:
  "generate_speech_bark env t out l w = (Some p, w') \<Longrightarrow> p = out \<and> files w' p \<noteq> None"
  unfolding generate_speech_bark_def Let_def getsize_def
  by (auto split: option.splits sum.splits if_splits dest!: fst_eqD)

lemma generate_speech_coqui_some:
  "generate_speech_coqui env t out l w = (Some p, w') \<Longrightarrow> p = out \<and> files w' p \<noteq> None"
  unfolding generate_speech_coqui_def Let_def getsize_def
  by (auto split: option.splits sum.splits outcome.splits if_splits dest!: fst_eqD)

lemma generate_speech_voice_clone_some:
  "generate_speech_voice_clone env t out r l w = (Some p, w') \<Longrightarrow>
     p = out \<and> files w' p \<noteq> None"
  unfolding generate_speech_voice_clone_def Let_def getsize_def
  by (auto split: option.splits sum.splits outcome.splits prod.splits if_splits dest!: fst_eqD)

lemma generate_speech_gtts_some:
  "generate_speech_gtts env t out l w = (Some p, w') \<Longrightarrow> p = out \<and> files w' p \<noteq> None"
  unfolding generate_speech_gtts_def gtts_except_def Let_def getsize_def
  by (auto split: option.splits sum.splits outcome.splits prod.splits if_splits)

lemma text_to_speech_some:
  "text_to_speech env i out l g r w = (Some p, w') \<Longrightarrow> p = out \<and> files w' p \<noteq> None"
  unfolding text_to_speech_def Let_def
  by (auto split: option.splits sum.splits if_splits
      dest!: generate_speech_bark_some generate_speech_coqui_some generate_speech_gtts_some
        generate_speech_voice_clone_some)


section \<open>The orchestrator block by block\<close>

lemma stops_after_failure_append:
  "list_all (\<lambda>e. \<not> failed_return e) xs \<Longrightarrow>
     stops_after_failure (xs @ ys) = stops_after_failure ys"
  by (induction xs) auto

lemma engine_event_quiet: "engine_event e \<Longrightarrow> \<not> failed_return e \<and> handoff_exists vc e"
  by (cases e) auto

lemma is_log_quiet: "is_log e \<Longrightarrow> \<not> failed_return e \<and> handoff_exists vc e"
  by (cases e) auto

lemma list_all_engine_quiet:
  "list_all engine_event es \<Longrightarrow>
     list_all (\<lambda>e. \<not> failed_return e) es \<and> list_all (handoff_exists vc) es"
  by (induction es) (auto dest: engine_event_quiet)

lemma list_all_log_quiet:
  "list_all is_log es \<Longrightarrow>
     list_all (\<lambda>e. \<not> failed_return e) es \<and> list_all (handoff_exists vc) es"
  by (induction es) (auto dest: is_log_quiet)

lemma stops_after_failure_quiet:
  "list_all (\<lambda>e. \<not> failed_return e) es \<Longrightarrow> stops_after_failure es"
  by (induction es) auto

lemma run_ok_engine_pre:
  assumes "engine_only w w1" and "run_ok vc w1 rw"
  shows "run_ok vc w rw"
proof -
  from assms(1) obtain es1 where e1: "trace w1 = trace w @ es1" "list_all engine_event es1"
    by (auto simp: engine_only_def)
  from assms(2) obtain es2 where e2: "trace (snd rw) = trace w1 @ es2" "stops_after_failure es2"
      "list_all (handoff_exists vc) es2" "(\<exists>e\<in>set es2. failed_return e) \<longrightarrow> failed (fst rw)"
    by (auto simp: run_ok_def)
  have q: "list_all (\<lambda>e. \<not> failed_return e) es1" "list_all (handoff_exists vc) es1"
    using list_all_engine_quiet [OF e1(2)] by auto
  have "trace (snd rw) = trace w @ (es1 @ es2)" using e1 e2 by simp
  moreover have "stops_after_failure (es1 @ es2)"
    using q e2 by (simp add: stops_after_failure_append)
  moreover have "list_all (handoff_exists vc) (es1 @ es2)" using q e2 by simp
  moreover have "(\<exists>e\<in>set (es1 @ es2). failed_return e) \<longrightarrow> failed (fst rw)"
    using q(1) e2(4) by (auto simp: list_all_iff)
  ultimately show ?thesis unfolding run_ok_def by blast
qed

lemma run_ok_ghost_pre:
  assumes "\<not> failed_return e" and "handoff_exists vc e" and "run_ok vc (emit e w) rw"
  shows "run_ok vc w rw"
proof -
  from assms(3) obtain es2 where e2: "trace (snd rw) = trace (emit e w) @ es2"
      "stops_after_failure es2" "list_all (handoff_exists vc) es2"
      "(\<exists>e\<in>set es2. failed_return e) \<longrightarrow> failed (fst rw)"
    by (auto simp: run_ok_def)
  have "trace (snd rw) = trace w @ (e # es2)" using e2 by simp
  moreover have "stops_after_failure (e # es2)" using assms(1) e2 by simp
  moreover have "list_all (handoff_exists vc) (e # es2)" using assms(2) e2 by simp
  moreover have "(\<exists>x\<in>set (e # es2). failed_return x) \<longrightarrow> failed (fst rw)"
    using assms(1) e2(4) by auto
  ultimately show ?thesis unfolding run_ok_def by blast
qed

lemma run_ok_stop:
  assumes "failed_return e" and "failed r" and "logs_only (emit e w) w'"
  shows "run_ok vc w (r, w')"
proof -
  from assms(3) obtain es where es: "trace w' = trace (emit e w) @ es" "list_all is_log es"
    by (auto simp: logs_only_def)
  have h: "handoff_exists vc e" using assms(1) by (cases e) auto
  have "trace w' = trace w @ (e # es)" using es by simp
  moreover have "stops_after_failure (e # es)" using assms(1) es by simp
  moreover have "list_all (handoff_exists vc) (e # es)"
    using h list_all_log_quiet [OF es(2)] by simp
  ultimately show ?thesis unfolding run_ok_def using assms(2) by auto
qed

lemma run_ok_finish:
  assumes "engine_only w w'"
  shows "run_ok vc w (r, w')"
proof -
  from assms obtain es where es: "trace w' = trace w @ es" "list_all engine_event es"
    by (auto simp: engine_only_def)
  have q: "list_all (\<lambda>e. \<not> failed_return e) es" "list_all (handoff_exists vc) es"
    using list_all_engine_quiet [OF es(2)] by auto
  show ?thesis unfolding run_ok_def
    using es q stops_after_failure_quiet [OF q(1)] by (auto simp: list_all_iff)
qed

lemma logs_only_refl: "logs_only w w"
  by (simp add: logs_only_def)

lemma logs_only_logger: "logs_only w w' \<Longrightarrow> logs_only w (logger l m w')"
  by (auto simp: logs_only_def)

lemma run_ok_stop_log:
  "failed_return e \<Longrightarrow> run_ok vc w (Inr None, logger l m (emit e w))"
  by (rule run_ok_stop [where e = e])
    (auto simp: failed_def intro: logs_only_logger logs_only_refl)

lemma run_ok_stop_raised:
  "run_ok vc w (Inl x, emit (StageRaised k x) w)"
  by (rule run_ok_stop [where e = "StageRaised k x"])
    (auto simp: failed_def intro: logs_only_refl)

lemma step6_ok:
  assumes "vc \<or> files w0 d \<noteq> None"
  shows "run_ok vc w0 (step6 env v d w0)"
proof -
  define wa where "wa = emit (Handoff 5 d (files w0 d)) w0"
  define w1 where "w1 = emit (StageCall 6 [v, d]) wa"
  obtain r w2 where m: "merge_video_audio env v d (OUTPUT_VIDEO_PATH env) True w1 = (r, w2)"
    by force
  have eo2: "engine_only w1 w2"
    using merge_video_audio_eo [OF engine_only_refl, of w1 env v d "OUTPUT_VIDEO_PATH env" True] m
    by simp
  have s: "step6 env v d w0 =
      (if \<not> truthy r
       then (Inr None, logger ERROR ''Failed to merge video and audio. Exiting.''
               (emit (StageReturn 6 r) w2))
       else (Inr r,
             logger INFO sep50
               (logger INFO (''Output video saved to: '' @ str_opt r)
                  (logger INFO ''Total processing time''
                     (logger INFO ''AI dubbing process completed successfully!''
                        (logger INFO sep50 (emit (StageReturn 6 r) w2)))))))"
    unfolding step6_def Let_def using m by (simp add: w1_def wa_def)
  have t: "run_ok vc w2 (step6 env v d w0)"
  proof (cases "truthy r")
    case False
    then show ?thesis unfolding s by (simp add: run_ok_stop_log)
  next
    case True
    have g: "run_ok vc (emit (StageReturn 6 r) w2) (step6 env v d w0)"
      unfolding s using True by (auto intro!: run_ok_finish eo)
    show ?thesis
      by (rule run_ok_ghost_pre [OF _ _ g]) (use True in simp_all)
  qed
  have "run_ok vc w1 (step6 env v d w0)" by (rule run_ok_engine_pre [OF eo2 t])
  then have "run_ok vc wa (step6 env v d w0)"
    unfolding w1_def by (elim run_ok_ghost_pre [rotated 2]) simp_all
  then show ?thesis
    unfolding wa_def using assms by (elim run_ok_ghost_pre [rotated 2]) auto
qed

lemma run_ok_call_pre:
  assumes "(k = 5 \<and> vc) \<or> c \<noteq> None"
    and "run_ok vc (emit (StageCall j ps) (emit (Handoff k p c) w)) rw"
  shows "run_ok vc w rw"
proof -
  have "run_ok vc (emit (Handoff k p c) w) rw"
    by (rule run_ok_ghost_pre [OF _ _ assms(2)]) simp_all
  then show ?thesis
    by (rule run_ok_ghost_pre [rotated 2]) (use assms(1) in simp_all)
qed

lemma run_ok_return_pre:
  assumes "truthy r" and "run_ok vc (emit (StageReturn k r) w) rw"
  shows "run_ok vc w rw"
  by (rule run_ok_ghost_pre [OF _ _ assms(2)]) (use assms(1) in simp_all)

lemma not_truthy_iff: "(\<not> truthy r) = (r = None \<or> r = Some [])"
  by (auto simp: truthy_def split: option.splits)

lemma step5_check_ok:
  assumes "\<And>p. dub = Some p \<Longrightarrow> vc \<or> files w0 p \<noteq> None"
  shows "run_ok vc w0 (step5_check env v dub w0)"
proof (cases "truthy dub")
  case False
  then have "step5_check env v dub w0 =
      (Inr None, logger ERROR ''Failed to generate speech. Exiting.''
         (emit (StageReturn 5 dub) w0))"
    unfolding step5_check_def Let_def by (auto simp: not_truthy_iff)
  then show ?thesis using False by (simp add: run_ok_stop_log)
next
  case True
  then obtain p where p: "dub = Some p" "p \<noteq> []"
    by (auto simp: truthy_def split: option.splits)
  have s: "step5_check env v dub w0 = step6 env v p (emit (StageReturn 5 dub) w0)"
    unfolding step5_check_def Let_def using p by simp
  have "run_ok vc (emit (StageReturn 5 dub) w0) (step6 env v p (emit (StageReturn 5 dub) w0))"
    by (rule step6_ok) (use assms p in simp)
  then show ?thesis unfolding s by (rule run_ok_return_pre [OF True])
qed

lemma step5_ok:
  assumes "files w0 tp \<noteq> None" and "vc = (eng = ''voice_clone'' \<and> truthy ref)"
  shows "run_ok vc w0 (step5 env tgt eng ref v tp w0)"
proof -
  define w1 where "w1 = emit (StageCall 5 [tp]) (emit (Handoff 4 tp (files w0 tp)) w0)"
  consider (unread) e where "vc" "read_file (files w0) tp = Inl e"
    | (cloner) body where "vc" "read_file (files w0) tp = Inr body"
    | (plain) "\<not> vc"
    by (cases "read_file (files w0) tp") auto
  then have tail: "(\<exists>e. step5 env tgt eng ref v tp w0 = (Inl e, w0)) \<or>
      run_ok vc w1 (step5 env tgt eng ref v tp w0)"
  proof cases
    case unread
    have yvc: "eng = ''voice_clone'' \<and> truthy ref"
      using unread(1) assms(2) by simp
    show ?thesis
      unfolding step5_def if_P [OF yvc] using unread(2) by simp
  next
    case cloner
    note True = cloner(1) and t = cloner(2)
    have yvc: "eng = ''voice_clone'' \<and> truthy ref"
      using True assms(2) by simp
    obtain r w2 where c: "clone_voice_and_speak env body ref tgt
        (Some (TEMP_DUBBED_AUDIO_PATH env)) w1 = (r, w2)"
      by force
    have "engine_only w1 (snd (clone_voice_and_speak env body ref tgt
        (Some (TEMP_DUBBED_AUDIO_PATH env)) w1))"
      by (rule clone_voice_and_speak_eo [OF engine_only_refl])
    then have eo2: "engine_only w1 w2" using c by simp
    have s: "step5 env tgt eng ref v tp w0 =
        (case r of Inl e \<Rightarrow> (Inl e, emit (StageRaised 5 e) w2)
         | Inr d \<Rightarrow> step5_check env v d w2)"
      unfolding step5_def Let_def if_P [OF yvc] using t c by (simp add: w1_def)
    have "run_ok vc w2 (step5 env tgt eng ref v tp w0)"
    proof (cases r)
      case (Inl e)
      then show ?thesis unfolding s by (simp add: run_ok_stop_raised)
    next
      case (Inr d)
      then show ?thesis unfolding s using True by (simp add: step5_check_ok)
    qed
    then have "run_ok vc w1 (step5 env tgt eng ref v tp w0)"
      by (rule run_ok_engine_pre [OF eo2])
    then show ?thesis ..
  next
    case plain
    note False = plain
    obtain d w2 where c: "text_to_speech env tp (TEMP_DUBBED_AUDIO_PATH env) tgt eng ref w1
        = (d, w2)"
      by force
    have "engine_only w1 (snd (text_to_speech env tp (TEMP_DUBBED_AUDIO_PATH env) tgt eng ref
        w1))"
      by (rule text_to_speech_eo [OF engine_only_refl])
    then have eo2: "engine_only w1 w2" using c by simp
    have nvc: "\<not> (eng = ''voice_clone'' \<and> truthy ref)"
      using False assms(2) by simp
    have s: "step5 env tgt eng ref v tp w0 = step5_check env v d w2"
      unfolding step5_def Let_def if_not_P [OF nvc] using c by (simp add: w1_def)
    have "run_ok vc w2 (step5_check env v d w2)"
    proof (rule step5_check_ok)
      fix p assume "d = Some p"
      then show "vc \<or> files w2 p \<noteq> None"
        using text_to_speech_some [of env tp "TEMP_DUBBED_AUDIO_PATH env" tgt eng ref w1 p w2] c
        by auto
    qed
    then have "run_ok vc w1 (step5 env tgt eng ref v tp w0)"
      unfolding s by (rule run_ok_engine_pre [OF eo2])
    then show ?thesis ..
  qed
  then show ?thesis
  proof
    assume "\<exists>e. step5 env tgt eng ref v tp w0 = (Inl e, w0)"
    then obtain e where s: "step5 env tgt eng ref v tp w0 = (Inl e, w0)" ..
    show ?thesis
      unfolding s by (rule run_ok_finish [OF engine_only_refl])
  next
    assume t: "run_ok vc w1 (step5 env tgt eng ref v tp w0)"
    show ?thesis
      by (rule run_ok_call_pre [OF _ t [unfolded w1_def]]) (use assms(1) in simp)
  qed
qed

lemma step4_ok:
  assumes "files w0 tp \<noteq> None" and "vc = (eng = ''voice_clone'' \<and> truthy ref)"
  shows "run_ok vc w0 (step4 env src tgt eng ref v tp w0)"
proof -
  define w1 where "w1 = emit (StageCall 4 [tp]) (emit (Handoff 3 tp (files w0 tp)) w0)"
  obtain r w2 where c: "translate_file env tp (TEMP_TRANSLATED_PATH env) src tgt
      TRANSLATION_ENGINE w1 = (r, w2)"
    by force
  have "engine_only w1 (snd (translate_file env tp (TEMP_TRANSLATED_PATH env) src tgt
      TRANSLATION_ENGINE w1))"
    by (rule translate_file_eo [OF engine_only_refl])
  then have eo2: "engine_only w1 w2" using c by simp
  define w3 where "w3 = emit (StageReturn 4 r) w2"
  have t2: "run_ok vc w2 (step4 env src tgt eng ref v tp w0)"
  proof (cases "truthy r")
    case False
    then have "step4 env src tgt eng ref v tp w0 =
        (Inr None, logger ERROR ''Failed to translate text. Exiting.'' w3)"
      unfolding step4_def Let_def using c by (auto simp: not_truthy_iff w1_def w3_def)
    then show ?thesis using False by (simp add: run_ok_stop_log w3_def)
  next
    case True
    then obtain p where p: "r = Some p" "p \<noteq> []"
      by (auto simp: truthy_def split: option.splits)
    have ex: "files w3 p \<noteq> None"
      using translate_file_some [OF c [unfolded p(1)]] by (auto simp: w3_def)
    show ?thesis
    proof (cases "read_file (files w3) p")
      case (Inl e)
      have s: "step4 env src tgt eng ref v tp w0 = (Inl e, w3)"
        unfolding step4_def Let_def using c p Inl by (simp add: w1_def w3_def)
      have "run_ok vc w3 (Inl e, w3)"
        by (rule run_ok_finish [OF engine_only_refl])
      then show ?thesis unfolding s w3_def by (rule run_ok_return_pre [OF True])
    next
      case (Inr body)
      have s: "step4 env src tgt eng ref v tp w0 = step5 env tgt eng ref v p w3"
        unfolding step4_def Let_def using c p Inr by (simp add: w1_def w3_def)
      have "run_ok vc w3 (step5 env tgt eng ref v p w3)"
        by (rule step5_ok [OF ex assms(2)])
      then show ?thesis unfolding s w3_def by (rule run_ok_return_pre [OF True])
    qed
  qed
  have tail: "run_ok vc w1 (step4 env src tgt eng ref v tp w0)"
    by (rule run_ok_engine_pre [OF eo2 t2])
  show ?thesis
    by (rule run_ok_call_pre [OF _ tail [unfolded w1_def]]) (use assms(1) in simp)
qed

lemma step3_ok:
  assumes "files w0 ap \<noteq> None" and "vc = (eng = ''voice_clone'' \<and> truthy ref)"
  shows "run_ok vc w0 (step3 env src tgt eng ref v ap w0)"
proof -
  define w1 where "w1 = emit (StageCall 3 [ap]) (emit (Handoff 2 ap (files w0 ap)) w0)"
  obtain r w2 where c: "transcribe_audio env ap (TEMP_TRANSCRIPT_PATH env) WHISPER_MODEL src w1
      = (r, w2)"
    by force
  have "engine_only w1 (snd (transcribe_audio env ap (TEMP_TRANSCRIPT_PATH env) WHISPER_MODEL
      src w1))"
    by (rule transcribe_audio_eo [OF engine_only_refl])
  then have eo2: "engine_only w1 w2" using c by simp
  define w3 where "w3 = emit (StageReturn 3 r) w2"
  have t2: "run_ok vc w2 (step3 env src tgt eng ref v ap w0)"
  proof (cases "truthy r")
    case False
    then have "step3 env src tgt eng ref v ap w0 =
        (Inr None, logger ERROR ''Failed to transcribe audio. Exiting.'' w3)"
      unfolding step3_def Let_def using c by (auto simp: not_truthy_iff w1_def w3_def)
    then show ?thesis using False by (simp add: run_ok_stop_log w3_def)
  next
    case True
    then obtain p where p: "r = Some p" "p \<noteq> []"
      by (auto simp: truthy_def split: option.splits)
    have ex: "files w3 p \<noteq> None"
      using transcribe_audio_some [OF c [unfolded p(1)]] by (auto simp: w3_def)
    show ?thesis
    proof (cases "read_file (files w3) p")
      case (Inl e)
      have s: "step3 env src tgt eng ref v ap w0 = (Inl e, w3)"
        unfolding step3_def Let_def using c p Inl by (simp add: w1_def w3_def)
      have "run_ok vc w3 (Inl e, w3)"
        by (rule run_ok_finish [OF engine_only_refl])
      then show ?thesis unfolding s w3_def by (rule run_ok_return_pre [OF True])
    next
      case (Inr body)
      have s: "step3 env src tgt eng ref v ap w0 = step4 env src tgt eng ref v p w3"
        unfolding step3_def Let_def using c p Inr by (simp add: w1_def w3_def)
      have "run_ok vc w3 (step4 env src tgt eng ref v p w3)"
        by (rule step4_ok [OF ex assms(2)])
      then show ?thesis unfolding s w3_def by (rule run_ok_return_pre [OF True])
    qed
  qed
  have tail: "run_ok vc w1 (step3 env src tgt eng ref v ap w0)"
    by (rule run_ok_engine_pre [OF eo2 t2])
  show ?thesis
    by (rule run_ok_call_pre [OF _ tail [unfolded w1_def]]) (use assms(1) in simp)
qed

lemma step2_ok:
  assumes "files w0 v \<noteq> None" and "vc = (eng = ''voice_clone'' \<and> truthy ref)"
  shows "run_ok vc w0 (step2 env src tgt eng ref v w0)"
proof -
  define w1 where "w1 = emit (StageCall 2 [v]) (emit (Handoff 1 v (files w0 v)) w0)"
  obtain r w2 where c: "extract_audio env v (TEMP_AUDIO_PATH env) 16000 1 w1 = (r, w2)"
    by force
  have "engine_only w1 (snd (extract_audio env v (TEMP_AUDIO_PATH env) 16000 1 w1))"
    by (rule extract_audio_eo [OF engine_only_refl])
  then have eo2: "engine_only w1 w2" using c by simp
  have t2: "run_ok vc w2 (step2 env src tgt eng ref v w0)"
  proof (cases r)
    case (Inl e)
    then have "step2 env src tgt eng ref v w0 = (Inl e, emit (StageRaised 2 e) w2)"
      unfolding step2_def Let_def using c by (simp add: w1_def)
    then show ?thesis by (simp add: run_ok_stop_raised)
  next
    case (Inr a)
    define w3 where "w3 = emit (StageReturn 2 a) w2"
    show ?thesis
    proof (cases "truthy a")
      case False
      then have "step2 env src tgt eng ref v w0 =
          (Inr None, logger ERROR ''Failed to extract audio. Exiting.'' w3)"
        unfolding step2_def Let_def using c Inr by (auto simp: not_truthy_iff w1_def w3_def)
      then show ?thesis using False by (simp add: run_ok_stop_log w3_def)
    next
      case True
      then obtain p where p: "a = Some p" "p \<noteq> []"
        by (auto simp: truthy_def split: option.splits)
      have ex: "files w3 p \<noteq> None"
        using extract_audio_some [OF c [unfolded Inr p(1)]] by (auto simp: w3_def)
      have s: "step2 env src tgt eng ref v w0 = step3 env src tgt eng ref v p w3"
        unfolding step2_def Let_def using c Inr p by (simp add: w1_def w3_def)
      have "run_ok vc w3 (step3 env src tgt eng ref v p w3)"
        by (rule step3_ok [OF ex assms(2)])
      then show ?thesis unfolding s w3_def by (rule run_ok_return_pre [OF True])
    qed
  qed
  have tail: "run_ok vc w1 (step2 env src tgt eng ref v w0)"
    by (rule run_ok_engine_pre [OF eo2 t2])
  show ?thesis
    by (rule run_ok_call_pre [OF _ tail [unfolded w1_def]]) (use assms(1) in simp)
qed

lemma step1_ok:
  assumes "vc = (eng = ''voice_clone'' \<and> truthy ref)"
  shows "run_ok vc w0 (step1 env url src tgt eng ref w0)"
proof -
  define w1 where "w1 = emit (StageCall 1 []) w0"
  obtain r w2 where c: "download_youtube_video env url (TEMP_VIDEO_PATH env) ''720p'' w1
      = (r, w2)"
    by force
  have "engine_only w1 (snd (download_youtube_video env url (TEMP_VIDEO_PATH env) ''720p'' w1))"
    by (rule download_youtube_video_eo [OF engine_only_refl])
  then have eo2: "engine_only w1 w2" using c by simp
  define w3 where "w3 = emit (StageReturn 1 r) w2"
  have t2: "run_ok vc w2 (step1 env url src tgt eng ref w0)"
  proof (cases "truthy r")
    case False
    then have "step1 env url src tgt eng ref w0 =
        (Inr None, logger ERROR ''Failed to download video. Exiting.'' w3)"
      unfolding step1_def Let_def using c by (auto simp: not_truthy_iff w1_def w3_def)
    then show ?thesis using False by (simp add: run_ok_stop_log w3_def)
  next
    case True
    then obtain p where p: "r = Some p" "p \<noteq> []"
      by (auto simp: truthy_def split: option.splits)
    have ex: "files w3 p \<noteq> None"
      using download_youtube_video_some [OF c [unfolded p(1)]] by (auto simp: w3_def)
    have s: "step1 env url src tgt eng ref w0 = step2 env src tgt eng ref p w3"
      unfolding step1_def Let_def using c p by (simp add: w1_def w3_def)
    have "run_ok vc w3 (step2 env src tgt eng ref p w3)"
      by (rule step2_ok [OF ex assms])
    then show ?thesis unfolding s w3_def by (rule run_ok_return_pre [OF True])
  qed
  have tail: "run_ok vc w1 (step1 env url src tgt eng ref w0)"
    by (rule run_ok_engine_pre [OF eo2 t2])
  show ?thesis
    by (rule run_ok_ghost_pre [OF _ _ tail [unfolded w1_def]]) simp_all
qed


section \<open>Evaluating concrete runs\<close>

lemmas settings_defs = OUTPUTS_DIR_def TEMP_VIDEO_PATH_def TEMP_AUDIO_PATH_def
  TEMP_TRANSCRIPT_PATH_def TEMP_TRANSLATED_PATH_def TEMP_DUBBED_AUDIO_PATH_def
  OUTPUT_VIDEO_PATH_def WHISPER_MODEL_def TRANSLATION_ENGINE_def TTS_ENGINE_def

lemmas helper_defs = exists_def getsize_def read_file_def truthy_def str_int_def
  str_nat.simps digit_def lower_char_def byte_def continuation_def py_len_def replace_p_def
  sq_def arrow_def
  ffmpeg_not_found_def sep50_def str_opt_def dict_get_def no_module_def Let_def

lemmas acquirer_defs = download_youtube_video_def pytube_try_def
  download_video_with_yt_dlp_def pytube_except_def yt_dlp_except_def yt_dlp_cmd_def

lemmas extractor_defs = extract_audio_def extract_cmd_def extract_except_def

lemmas orchestrator_defs = process_video_def step1_def step2_def step3_def step4_def
  step5_def step5_check_def step6_def

section \<open>The run as a whole\<close>

lemma stops_after_failure_snoc_log:
  "stops_after_failure es \<Longrightarrow> is_log e \<Longrightarrow> stops_after_failure (es @ [e])"
  by (induction es) auto

lemma process_video_trace:
  assumes "process_video env url src tgt eng ref w0 = (r, w')"
  shows "\<exists>es. trace w' = trace w0 @ es \<and> stops_after_failure es \<and>
           list_all (handoff_exists (eng = ''voice_clone'' \<and> truthy ref)) es \<and>
           ((\<exists>e\<in>set es. failed_return e) \<longrightarrow> r = None)"
proof -
  define vc where "vc = (eng = ''voice_clone'' \<and> truthy ref)"
  define w1 where "w1 = logger INFO sep50
      (logger INFO (''Source language: '' @ src @ '', Target language: '' @ tgt)
         (logger INFO (''Starting AI dubbing process for: '' @ url) (logger INFO sep50 w0)))"
  obtain r1 w2 where s1: "step1 env url src tgt eng ref w1 = (r1, w2)"
    by force
  have "run_ok vc w1 (step1 env url src tgt eng ref w1)"
    by (rule step1_ok) (simp add: vc_def)
  then have "run_ok vc w0 (r1, w2)"
    unfolding s1 by (rule run_ok_engine_pre [rotated]) (auto simp: w1_def intro!: eo)
  then obtain es where es: "trace w2 = trace w0 @ es" "stops_after_failure es"
      "list_all (handoff_exists vc) es" "(\<exists>e\<in>set es. failed_return e) \<longrightarrow> failed r1"
    by (auto simp: run_ok_def)
  show ?thesis
  proof (cases r1)
    case (Inl e)
    then have rw: "r = None"
        "w' = logger ERROR (''Unexpected error during dubbing process: '' @ str_exn e) w2"
      using assms s1 unfolding process_video_def Let_def w1_def [symmetric] by simp_all
    have "trace w' = trace w0 @ (es @ [Log ERROR (''Unexpected error during dubbing process: ''
        @ str_exn e)])"
      using es(1) rw(2) by simp
    moreover have "stops_after_failure (es @ [Log ERROR
        (''Unexpected error during dubbing process: '' @ str_exn e)])"
      by (rule stops_after_failure_snoc_log [OF es(2)]) simp
    moreover have "list_all (handoff_exists vc) (es @ [Log ERROR
        (''Unexpected error during dubbing process: '' @ str_exn e)])"
      using es(3) by simp
    ultimately show ?thesis using rw(1) unfolding vc_def by blast
  next
    case (Inr p)
    then have rw: "r = p" "w' = w2"
      using assms s1 unfolding process_video_def Let_def w1_def [symmetric] by simp_all
    have "(\<exists>e\<in>set es. failed_return e) \<longrightarrow> r = None"
      using es(4) Inr rw(1) by (simp add: failed_def)
    then show ?thesis using es(1-3) rw(2) unfolding vc_def by blast
  qed
qed

lemma new_events_append: "trace w' = trace w @ es \<Longrightarrow> new_events w w' = es"
  by (simp add: new_events_def)


section \<open>C1: a failed stage ends the run\<close>

text \<open>
  C1. If any stage of the pipeline fails, the orchestrator ends the run without
  attempting any later stage. In the entries a run of \<open>process_video\<close> adds to the
  trace, everything after the first failed return of a stage (a \<open>StageReturn\<close> with
  \<^verbatim>\<open>None\<close>, or a \<open>StageRaised\<close>) is a log record: no stage is called and no tool is
  invoked after it. And a run with a failed return gives back \<^verbatim>\<open>None\<close>, not a path.
\<close>

theorem process_video_stops_at_first_failure:
  "stops_after_failure (new_events w0 (snd (process_video env url src tgt eng ref w0))) \<and>
   ((\<exists>e\<in>set (new_events w0 (snd (process_video env url src tgt eng ref w0))).
        failed_return e) \<longrightarrow>
      fst (process_video env url src tgt eng ref w0) = None)"
proof -
  obtain r w' where p: "process_video env url src tgt eng ref w0 = (r, w')"
    by force
  from process_video_trace [OF p] obtain es where es: "trace w' = trace w0 @ es"
      "stops_after_failure es" "(\<exists>e\<in>set es. failed_return e) \<longrightarrow> r = None"
    by blast
  have "new_events w0 w' = es" by (rule new_events_append [OF es(1)])
  then show ?thesis using es p by simp
qed

text \<open>
  A run in which the second stage fails: ffmpeg exits with code 1. The hypothesis of
  C1 holds there (a stage returned a failure), so the run stops and returns \<^verbatim>\<open>None\<close>.
\<close>

theorem process_video_stops_at_first_failure_witness:
  "(\<exists>e\<in>set (new_events empty_world
        (snd (process_video ffmpeg_fails_env ''u'' ''en'' ''tr'' ''gtts'' None empty_world))).
      failed_return e) \<and>
   stops_after_failure (new_events empty_world
      (snd (process_video ffmpeg_fails_env ''u'' ''en'' ''tr'' ''gtts'' None empty_world))) \<and>
   fst (process_video ffmpeg_fails_env ''u'' ''en'' ''tr'' ''gtts'' None empty_world) = None"
proof -
  have h: "\<exists>e\<in>set (new_events empty_world
        (snd (process_video ffmpeg_fails_env ''u'' ''en'' ''tr'' ''gtts'' None empty_world))).
      failed_return e"
    by (simp add: orchestrator_defs acquirer_defs extractor_defs helper_defs settings_defs
        ffmpeg_fails_env_def quiet_env_def empty_world_def new_events_def)
  show ?thesis
    using process_video_stops_at_first_failure
      [of empty_world ffmpeg_fails_env "''u''" "''en''" "''tr''" "''gtts''" None] h
    by blast
qed

section \<open>C7: what is handed from stage to stage\<close>

lemmas transcriber_defs = transcribe_audio_def transcribe_except_def

lemmas translator_defs = translate_file_def translate_file_save_def translate_text_google_def
  translate_text_openai_def

lemmas synthesizer_defs = text_to_speech_def generate_speech_gtts_def gtts_except_def
  resolve_lang_def gtts_lang_mapping_def

lemmas muxer_defs = merge_video_audio_def merge_video_audio_ffmpeg_def merge_cmd_def
  merge_ffmpeg_except_def merge_video_audio_moviepy_def merge_moviepy_except_def

lemmas run_defs = orchestrator_defs acquirer_defs extractor_defs transcriber_defs
  translator_defs synthesizer_defs muxer_defs helper_defs settings_defs write_file_def
  empty_world_def new_events_def

text \<open>
  C7 as stated (every artifact handed to the next stage exists and is non-empty) fails.
  \<^verbatim>\<open>process_video\<close> tests only \<^verbatim>\<open>if not transcript_path\<close>, and \<^verbatim>\<open>transcribe_audio\<close>
  writes whatever text Whisper gave. When Whisper returns the empty text, the run goes
  on from stage 3 with \<^verbatim>\<open>transcript.txt\<close> of size 0: the trace holds
  \<open>Handoff 3 ''/app/outputs/transcript.txt'' (Some [])\<close>.
\<close>

theorem empty_transcript_is_handed_on:
  "\<not> list_all handoff_nonempty (new_events empty_world
      (snd (process_video silent_env ''u'' ''en'' ''tr'' ''gtts'' None empty_world)))"
  by (simp add: run_defs silent_env_def quiet_env_def)

text \<open>
  C7, amended. Whenever the orchestrator goes on from one stage to the next, the path
  the finished stage returned names a file that exists at that moment (it may be
  empty). Not covered is the handoff after stage 5 when the voice cloner ran
  (\<^verbatim>\<open>tts_engine == "voice_clone"\<close> with a reference audio): \<^verbatim>\<open>clone_voice_and_speak\<close>
  returns the path it gave XTTS without looking at the file.
\<close>

theorem handed_artifact_exists:
  "list_all (handoff_exists (eng = ''voice_clone'' \<and> truthy ref))
     (new_events w0 (snd (process_video env url src tgt eng ref w0)))"
proof -
  obtain r w' where p: "process_video env url src tgt eng ref w0 = (r, w')"
    by force
  from process_video_trace [OF p] obtain es where es: "trace w' = trace w0 @ es"
      "list_all (handoff_exists (eng = ''voice_clone'' \<and> truthy ref)) es"
    by blast
  have "new_events w0 w' = es" by (rule new_events_append [OF es(1)])
  then show ?thesis using es p by simp
qed

lemma quiet_run_events:
  "filter is_handoff (new_events empty_world
      (snd (process_video quiet_env ''u'' ''en'' ''tr'' ''gtts'' None empty_world))) =
   [Handoff 1 ''/app/outputs/temp_video.mp4'' (Some ''VIDEO''),
    Handoff 2 ''/app/outputs/temp_audio.wav'' (Some ''MEDIA''),
    Handoff 3 ''/app/outputs/transcript.txt'' (Some ''hello''),
    Handoff 4 ''/app/outputs/translated.txt'' (Some ''merhaba''),
    Handoff 5 ''/app/outputs/dubbed_audio.wav'' (Some ''SPEECH'')]"
  by (simp add: run_defs quiet_env_def)

text \<open>A complete run with its five handoffs, each of an existing file.\<close>

theorem handed_artifact_exists_witness:
  "length (filter is_handoff (new_events empty_world
      (snd (process_video quiet_env ''u'' ''en'' ''tr'' ''gtts'' None empty_world)))) = 5 \<and>
   list_all (handoff_exists False) (new_events empty_world
      (snd (process_video quiet_env ''u'' ''en'' ''tr'' ''gtts'' None empty_world)))"
  using handed_artifact_exists [of "''gtts''" None empty_world quiet_env "''u''" "''en''" "''tr''"]
    quiet_run_events
  by simp

section \<open>C2: a missing or empty input artifact\<close>

text \<open>
  C2 as stated covers an input file that exists but is empty. No stage function looks
  at the size of its input: \<^verbatim>\<open>extract_audio\<close> tests \<^verbatim>\<open>os.path.exists(video_path)\<close> only, so
  on a video of size 0 it runs ffmpeg (and, ffmpeg willing, returns the audio path).
\<close>

theorem empty_input_reaches_the_engine:
  "list_ex is_invoke (new_events empty_video_world
      (snd (extract_audio quiet_env ''/app/outputs/temp_video.mp4''
              ''/app/outputs/temp_audio.wav'' 16000 1 empty_video_world))) \<and>
   fst (extract_audio quiet_env ''/app/outputs/temp_video.mp4''
          ''/app/outputs/temp_audio.wav'' 16000 1 empty_video_world)
     = Inr (Some ''/app/outputs/temp_audio.wav'')"
  by (simp add: extractor_defs helper_defs new_events_def empty_video_world_def quiet_env_def)

lemma fails_quietly_logger2: "fails_quietly w (logger l2 m2 (logger l1 m1 w))"
  by (simp add: fails_quietly_def new_events_def)

lemma extract_audio_missing:
  "files w p = None \<Longrightarrow>
     fst (extract_audio env p a sr ch w) = Inr None \<and>
     fails_quietly w (snd (extract_audio env p a sr ch w))"
  by (simp add: extract_audio_def exists_def Let_def fails_quietly_logger2)

lemma transcribe_audio_missing:
  "files w p = None \<Longrightarrow>
     fst (transcribe_audio env p out m l w) = None \<and>
     fails_quietly w (snd (transcribe_audio env p out m l w))"
  by (simp add: transcribe_audio_def exists_def Let_def fails_quietly_logger2)

lemma translate_file_missing:
  "files w p = None \<Longrightarrow>
     fst (translate_file env p out s d g w) = None \<and>
     fails_quietly w (snd (translate_file env p out s d g w))"
  by (simp add: translate_file_def exists_def Let_def fails_quietly_logger2)

lemma text_to_speech_missing:
  "files w p = None \<Longrightarrow>
     fst (text_to_speech env p out l g r w) = None \<and>
     fails_quietly w (snd (text_to_speech env p out l g r w))"
  by (simp add: text_to_speech_def exists_def Let_def fails_quietly_logger2)

lemma merge_video_audio_missing:
  "files w v = None \<or> files w a = None \<Longrightarrow>
     fst (merge_video_audio env v a out u w) = None \<and>
     fails_quietly w (snd (merge_video_audio env v a out u w))"
  by (auto simp: merge_video_audio_def merge_video_audio_ffmpeg_def
      merge_video_audio_moviepy_def exists_def Let_def fails_quietly_logger2)

text \<open>
  C2, amended. For the five roles that take an input artifact (Extractor, Transcriber,
  Translator, Synthesizer, and the Muxer for either of its two inputs), a missing
  input file makes the stage function return its failure value \<^verbatim>\<open>None\<close> with no tool
  invoked: the files are untouched and only log records are written. (The Acquirer
  takes a URL, not an artifact; an input that exists but is empty is passed to the
  engine.)
\<close>

theorem missing_input_fails_without_invocation:
  assumes "files w p = None"
  shows "fst (extract_audio env p a sr ch w) = Inr None \<and>
         fails_quietly w (snd (extract_audio env p a sr ch w)) \<and>
         fst (transcribe_audio env p out m l w) = None \<and>
         fails_quietly w (snd (transcribe_audio env p out m l w)) \<and>
         fst (translate_file env p out s d g w) = None \<and>
         fails_quietly w (snd (translate_file env p out s d g w)) \<and>
         fst (text_to_speech env p out l g r w) = None \<and>
         fails_quietly w (snd (text_to_speech env p out l g r w)) \<and>
         fst (merge_video_audio env p a out u w) = None \<and>
         fails_quietly w (snd (merge_video_audio env p a out u w)) \<and>
         fst (merge_video_audio env a p out u w) = None \<and>
         fails_quietly w (snd (merge_video_audio env a p out u w))"
proof -
  note e = extract_audio_missing [OF assms, of env a sr ch]
  note t = transcribe_audio_missing [OF assms, of env out m l]
  note f = translate_file_missing [OF assms, of env out s d g]
  note s = text_to_speech_missing [OF assms, of env out l g r]
  have m1: "fst (merge_video_audio env p a out u w) = None \<and>
      fails_quietly w (snd (merge_video_audio env p a out u w))"
    by (rule merge_video_audio_missing) (simp add: assms)
  have m2: "fst (merge_video_audio env a p out u w) = None \<and>
      fails_quietly w (snd (merge_video_audio env a p out u w))"
    by (rule merge_video_audio_missing) (simp add: assms)
  show ?thesis using e t f s m1 m2 by blast
qed

text \<open>On an empty disk every path is a missing input.\<close>

theorem missing_input_fails_without_invocation_witness:
  "files empty_world ''/app/in'' = None \<and>
   fst (extract_audio quiet_env ''/app/in'' ''/app/a.wav'' 16000 1 empty_world) = Inr None \<and>
   fails_quietly empty_world
     (snd (extract_audio quiet_env ''/app/in'' ''/app/a.wav'' 16000 1 empty_world)) \<and>
   fst (text_to_speech quiet_env ''/app/in'' ''/app/d.wav'' ''tr'' ''gtts'' None empty_world)
     = None \<and>
   fst (merge_video_audio quiet_env ''/app/v.mp4'' ''/app/in'' ''/app/o.mp4'' True empty_world)
     = None"
proof -
  have h: "files empty_world ''/app/in'' = None"
    by (simp add: empty_world_def)
  show ?thesis
    using h missing_input_fails_without_invocation
      [OF h, where env = quiet_env and a = "''/app/a.wav''" and sr = 16000 and ch = 1
         and out = "''/app/d.wav''" and l = "''tr''" and g = "''gtts''" and r = None
         and u = True]
      missing_input_fails_without_invocation
      [OF h, where env = quiet_env and a = "''/app/v.mp4''" and out = "''/app/o.mp4''"
         and u = True]
    by simp
qed

section \<open>C3: falling back to the second engine\<close>

text \<open>
  \<^verbatim>\<open>merge_video_audio_ffmpeg\<close> never lets an exception out: whatever fails inside it is
  caught by its own handlers and turned into \<^verbatim>\<open>None\<close>. So the handler
  \<^verbatim>\<open>except Exception\<close> of \<^verbatim>\<open>merge_video_audio\<close>, the only place that calls moviepy after
  ffmpeg, is never entered.
\<close>

lemma merge_video_audio_ffmpeg_never_raises:
  "\<exists>r. fst (merge_video_audio_ffmpeg env v a out w) = Inr r"
  unfolding merge_video_audio_ffmpeg_def Let_def
  by (auto split: option.splits outcome.splits sum.splits prod.splits)

lemma merge_video_audio_is_ffmpeg:
  "merge_video_audio env v a out True w =
     (case merge_video_audio_ffmpeg env v a out w of (r, w1) \<Rightarrow> (case r of Inr p \<Rightarrow> p, w1))"
proof -
  obtain r w1 where m: "merge_video_audio_ffmpeg env v a out w = (r, w1)"
    by force
  with merge_video_audio_ffmpeg_never_raises [of env v a out w] obtain p where "r = Inr p"
    by auto
  then show ?thesis using m by (simp add: merge_video_audio_def)
qed

lemma merge_video_audio_never_moviepy:
  "\<not> list_ex (invokes MoviePy) (new_events w (snd (merge_video_audio env v a out True w)))"
proof -
  have "\<not> list_ex (invokes MoviePy)
      (new_events w (snd (merge_video_audio_ffmpeg env v a out w)))"
    unfolding merge_video_audio_ffmpeg_def merge_ffmpeg_except_def Let_def
    by (auto simp: new_events_def invokes_def
        split: option.splits outcome.splits sum.splits prod.splits exn.splits)
  then show ?thesis
    unfolding merge_video_audio_is_ffmpeg by (auto split: prod.splits)
qed

text \<open>
  For the Acquirer the fallback works as C3 says: when pytube raises and yt-dlp
  succeeds, the stage returns the file of yt-dlp, and yt-dlp is invoked once.
\<close>

lemma download_falls_back_to_yt_dlp:
  "fst (download_youtube_video pytube_fails_env ''u'' ''/app/outputs/temp_video.mp4'' ''720p''
          empty_world) = Some ''/app/outputs/temp_video.mp4'' \<and>
   length (filter (invokes YtDlp) (new_events empty_world
      (snd (download_youtube_video pytube_fails_env ''u'' ''/app/outputs/temp_video.mp4''
              ''720p'' empty_world)))) = 1 \<and>
   length (filter (\<lambda>e. e = Log INFO ''Trying alternative download method...'')
      (new_events empty_world
         (snd (download_youtube_video pytube_fails_env ''u'' ''/app/outputs/temp_video.mp4''
                 ''720p'' empty_world)))) = 1"
  by (simp add: acquirer_defs helper_defs new_events_def invokes_def empty_world_def
      pytube_fails_env_def quiet_env_def)

text \<open>
  C3, for the Muxer, at a run where the first candidate fails and the second would
  succeed: ffmpeg exits with code 1, moviepy works. \<^verbatim>\<open>merge_video_audio\<close> returns \<^verbatim>\<open>None\<close>
  and moviepy is not invoked, although on the same input \<^verbatim>\<open>merge_video_audio_moviepy\<close>
  returns the output path; no fallback record is written (the trace holds no record of
  level WARNING).
\<close>

theorem muxer_does_not_fall_back:
  "fst (merge_video_audio ffmpeg_fails_env ''/app/outputs/temp_video.mp4''
          ''/app/outputs/dubbed_audio.wav'' ''/app/outputs/dubbed_video.mp4'' True media_world)
     = None \<and>
   \<not> list_ex (invokes MoviePy) (new_events media_world
      (snd (merge_video_audio ffmpeg_fails_env ''/app/outputs/temp_video.mp4''
              ''/app/outputs/dubbed_audio.wav'' ''/app/outputs/dubbed_video.mp4'' True
              media_world))) \<and>
   \<not> list_ex (\<lambda>e. case e of Log lvl _ \<Rightarrow> lvl = WARNING | _ \<Rightarrow> False) (new_events media_world
      (snd (merge_video_audio ffmpeg_fails_env ''/app/outputs/temp_video.mp4''
              ''/app/outputs/dubbed_audio.wav'' ''/app/outputs/dubbed_video.mp4'' True
              media_world))) \<and>
   fst (merge_video_audio_moviepy ffmpeg_fails_env ''/app/outputs/temp_video.mp4''
          ''/app/outputs/dubbed_audio.wav'' ''/app/outputs/dubbed_video.mp4'' media_world)
     = Some ''/app/outputs/dubbed_video.mp4''"
  by (simp add: muxer_defs helper_defs new_events_def invokes_def media_world_def
      ffmpeg_fails_env_def quiet_env_def)

section \<open>C4: every candidate engine fails\<close>


lemma files_pytube_except [simp]: "files (pytube_except e w) = files w"
  by (cases e) (simp_all add: pytube_except_def)

lemma trace_pytube_except [simp]: "trace (pytube_except e w) = trace w @ pytube_records e"
  by (cases e) (simp_all add: pytube_except_def pytube_records_def)






section \<open>C5: language codes of the voice cloner\<close>

lemmas cloner_defs = clone_voice_and_speak_xtts_def clone_voice_and_speak_def
  clone_voice_fallback_def xtts_except_def resolve_output_def ensure_dir_def
  xtts_lang_mapping_def fallback_lang_mapping_def

text \<open>
  The two call sites of XTTS share a table that maps \<^verbatim>\<open>zh\<close> to \<^verbatim>\<open>zh-cn\<close>; for both, the
  code \<^verbatim>\<open>zh\<close> reaches the model as \<^verbatim>\<open>zh-cn\<close>, as C5 says.
\<close>

lemma xtts_receives_zh_cn:
  "dict_get xtts_lang_mapping (lower ''zh'') ''en'' = ''zh-cn'' \<and>
   list_ex (\<lambda>e. e = Invoke XTTS [''merhaba'', ''/app/ref.wav'', ''zh-cn''])
     (new_events ref_world
        (snd (clone_voice_and_speak_xtts quiet_env ''merhaba'' ''/app/ref.wav'' ''zh''
                (Some ''/app/outputs/dubbed_audio.wav'') ref_world))) \<and>
   list_ex (\<lambda>e. e = Invoke XTTS [''merhaba'', ''/app/ref.wav'', ''zh-cn''])
     (new_events ref_world
        (snd (clone_voice_and_speak quiet_env ''merhaba'' (Some ''/app/ref.wav'') ''zh''
                (Some ''/app/outputs/dubbed_audio.wav'') ref_world)))"
  by (simp add: cloner_defs helper_defs new_events_def ref_world_def quiet_env_def)

text \<open>
  The XTTS variant of \<^verbatim>\<open>utils/voice_cloner.py\<close> never writes a record of level WARNING,
  whatever the language code: its lookup is \<^verbatim>\<open>lang_mapping.get(target_lang.lower(), "en")\<close>
  followed by \<^verbatim>\<open>logger.info\<close>.
\<close>

lemma no_warning_added_refl: "no_warning_added w w"
  by (simp add: no_warning_added_def)

lemma no_warning_added_logger:
  "lvl \<noteq> WARNING \<Longrightarrow> no_warning_added w w' \<Longrightarrow> no_warning_added w (logger lvl m w')"
  by (auto simp: no_warning_added_def)

lemma no_warning_added_invoke:
  "no_warning_added w w' \<Longrightarrow> no_warning_added w (emit (Invoke t a) w')"
  by (auto simp: no_warning_added_def)

lemma no_warning_added_files:
  "no_warning_added w w' \<Longrightarrow> no_warning_added w (w'\<lparr>files := f\<rparr>)"
  by (auto simp: no_warning_added_def)

lemmas nw = no_warning_added_refl no_warning_added_logger no_warning_added_invoke
  no_warning_added_files

lemma xtts_except_no_warning:
  "no_warning_added w w' \<Longrightarrow> no_warning_added w (snd (xtts_except e w'))"
  by (cases e) (simp_all add: xtts_except_def nw)

lemma clone_voice_and_speak_xtts_no_warning:
  "no_warning_added w w' \<Longrightarrow>
     no_warning_added w (snd (clone_voice_and_speak_xtts env t s l p w'))"
  unfolding clone_voice_and_speak_xtts_def Let_def
  by (auto split: option.splits sum.splits outcome.splits
      intro!: nw xtts_except_no_warning)

lemma clone_voice_and_speak_xtts_never_warns:
  "\<not> list_ex is_warning
      (new_events w (snd (clone_voice_and_speak_xtts env t s l p w)))"
  using clone_voice_and_speak_xtts_no_warning [OF no_warning_added_refl, of w env t s l p]
  by (auto simp: no_warning_added_def new_events_def)

text \<open>
  The variants of \<^verbatim>\<open>utils/tts.py\<close> do warn: \<^verbatim>\<open>generate_speech_gtts\<close> on the unmapped code
  \<^verbatim>\<open>xx\<close> passes \<^verbatim>\<open>en\<close> to gTTS and logs the warning.
\<close>

lemma gtts_warns_on_unmapped_code:
  "new_events empty_world
     (snd (generate_speech_gtts quiet_env ''merhaba'' ''/app/outputs/dubbed_audio.wav'' ''xx''
             empty_world)) =
   [Log INFO ''Generating speech using Google TTS (language: xx)'',
    Log WARNING ''Language xx not found in mapping, defaulting to English'',
    Invoke GTTS [''merhaba'', ''en''],
    Log INFO ''Speech generated successfully to /app/outputs/dubbed_audio.wav'',
    Log INFO ''Generation time, Size'']"
  by (simp add: synthesizer_defs helper_defs new_events_def empty_world_def quiet_env_def)

text \<open>
  C5, for the variants whose table maps \<^verbatim>\<open>zh\<close> to \<^verbatim>\<open>zh-cn\<close>, at the unmapped code
  \<^verbatim>\<open>xx\<close>: both fall back to \<^verbatim>\<open>en\<close> and succeed, but neither logs a warning. The variant of
  \<^verbatim>\<open>utils/voice_cloner.py\<close> logs the code it chose at level INFO; the XTTS branch of
  \<^verbatim>\<open>utils/voice_cloner_fallback.py\<close> logs nothing about it.
\<close>

theorem xtts_unmapped_code_logs_no_warning:
  "new_events ref_world
     (snd (clone_voice_and_speak_xtts quiet_env ''merhaba'' ''/app/ref.wav'' ''xx''
             (Some ''/app/outputs/dubbed_audio.wav'') ref_world)) =
   [Log INFO ''Starting XTTS voice cloning from sample: /app/ref.wav'',
    Log INFO ''Target language: xx, Output path: /app/outputs/dubbed_audio.wav'',
    Log INFO (''Using language code '' @ sq @ ''en'' @ sq @ '' for XTTS''),
    Log INFO ''GPU acceleration: Disabled'',
    Invoke XTTS [''merhaba'', ''/app/ref.wav'', ''en''],
    Log INFO ''Model loaded: tts_models/multilingual/multi-dataset/xtts_v2'',
    Log INFO ''Generating speech with cloned voice...'',
    Log INFO ''Voice cloning completed'',
    Log INFO ''Generated audio saved to: /app/outputs/dubbed_audio.wav''] \<and>
   new_events ref_world
     (snd (clone_voice_and_speak quiet_env ''merhaba'' (Some ''/app/ref.wav'') ''xx''
             (Some ''/app/outputs/dubbed_audio.wav'') ref_world)) =
   [Log INFO ''Attempting to generate speech using fallback method...'',
    Log INFO ''Using PyTorch'',
    Log INFO ''Attempting to load XTTS model...'',
    Log INFO ''GPU not available, using CPU'',
    Invoke XTTS [''merhaba'', ''/app/ref.wav'', ''en''],
    Log INFO ''XTTS voice cloning successful: /app/outputs/dubbed_audio.wav'']"
  by (simp add: cloner_defs helper_defs new_events_def ref_world_def quiet_env_def)

section \<open>C6: what a failed attempt leaves at the target path\<close>

text \<open>
  C6 as stated fails: no adapter writes to a temporary location, and none removes the
  target after a failure. When ffmpeg has written part of the audio and exits with
  code 1, \<^verbatim>\<open>extract_audio\<close> logs the error and returns \<^verbatim>\<open>None\<close>; the partial file stays at
  the target path.
\<close>

theorem failed_extraction_leaves_partial_file:
  "fst (extract_audio partial_ffmpeg_env ''/app/outputs/temp_video.mp4''
          ''/app/outputs/temp_audio.wav'' 16000 1 media_world) = Inr None \<and>
   files (snd (extract_audio partial_ffmpeg_env ''/app/outputs/temp_video.mp4''
                 ''/app/outputs/temp_audio.wav'' 16000 1 media_world))
      ''/app/outputs/temp_audio.wav'' = Some ''PART''"
  by (simp add: extractor_defs helper_defs media_world_def partial_ffmpeg_env_def quiet_env_def)

lemma files_extract_except [simp]: "files (snd (extract_except e w)) = files w"
  by (cases e) (simp_all add: extract_except_def)

lemma files_merge_ffmpeg_except [simp]: "files (snd (merge_ffmpeg_except e w)) = files w"
  by (cases e) (simp_all add: merge_ffmpeg_except_def)

lemma extract_audio_files:
  "files (snd (extract_audio env v a sr ch w)) =
     (if exists (files w) v \<and> makedirs env a = None
      then files_of (ffmpeg env (extract_cmd v a sr ch) (files w))
      else files w)"
  unfolding extract_audio_def Let_def files_of_def
  by (auto split: option.splits outcome.splits sum.splits prod.splits)

lemma merge_video_audio_ffmpeg_files:
  "files (snd (merge_video_audio_ffmpeg env v a out w)) =
     (if exists (files w) v \<and> exists (files w) a \<and> makedirs env out = None
      then files_of (ffmpeg env (merge_cmd v a out) (files w))
      else files w)"
  unfolding merge_video_audio_ffmpeg_def Let_def files_of_def
  by (auto split: option.splits outcome.splits sum.splits prod.splits)

lemma fst_resolve_lang: "fst (resolve_lang table l w) = fst (resolve_lang table l w')"
  unfolding resolve_lang_def by (simp split: option.splits)

lemma generate_speech_gtts_files:
  "files (snd (generate_speech_gtts env t out l w)) =
     (if gtts_new env t (fst (resolve_lang gtts_lang_mapping l w)) = None \<and>
         makedirs env out = None
      then files_of (gtts_save env t (fst (resolve_lang gtts_lang_mapping l w)) out (files w))
      else files w)"
proof -
  define w1 where
    "w1 = logger INFO (''Generating speech using Google TTS (language: '' @ l @ '')'') w"
  obtain c w2 where r: "resolve_lang gtts_lang_mapping l w1 = (c, w2)"
    by force
  have "files (snd (resolve_lang gtts_lang_mapping l w1)) = files w1"
    by simp
  then have "files w2 = files w1"
    unfolding r by simp
  then have f2: "files w2 = files w"
    by (simp add: w1_def)
  have c: "fst (resolve_lang gtts_lang_mapping l w) = c"
    using fst_resolve_lang [of gtts_lang_mapping l w w1] r by simp
  show ?thesis
    unfolding generate_speech_gtts_def gtts_except_def Let_def w1_def [symmetric] r c
    by (simp add: f2 files_of_def split: option.splits outcome.splits sum.splits)
qed

text \<open>
  C6, amended. The engine adapters \<^verbatim>\<open>extract_audio\<close>, \<^verbatim>\<open>merge_video_audio_ffmpeg\<close> and
  \<^verbatim>\<open>generate_speech_gtts\<close> hand the target path to the external tool and never touch the
  files themselves: after an attempt, failed or not, the files are exactly as the tool
  left them (and unchanged when the tool was not run). There is no temporary file and
  no cleanup; after a failure the target path holds whatever the tool wrote there.
\<close>

theorem adapters_leave_files_as_the_tool_left_them:
  "files (snd (extract_audio env v a sr ch w)) =
     (if exists (files w) v \<and> makedirs env a = None
      then files_of (ffmpeg env (extract_cmd v a sr ch) (files w))
      else files w) \<and>
   files (snd (merge_video_audio_ffmpeg env v a out w)) =
     (if exists (files w) v \<and> exists (files w) a \<and> makedirs env out = None
      then files_of (ffmpeg env (merge_cmd v a out) (files w))
      else files w) \<and>
   files (snd (generate_speech_gtts env t out l w)) =
     (if gtts_new env t (fst (resolve_lang gtts_lang_mapping l w)) = None \<and>
         makedirs env out = None
      then files_of (gtts_save env t (fst (resolve_lang gtts_lang_mapping l w)) out (files w))
      else files w)"
  using extract_audio_files [of env v a sr ch w]
    merge_video_audio_ffmpeg_files [of env v a out w]
    generate_speech_gtts_files [of env t out l w]
  by blast

section \<open>C10: an unknown synthesis engine\<close>

text \<open>
  The comparison is the one of \<^verbatim>\<open>lower()\<close>: an upper-case spelling of a known name is
  that name, and so is \<^verbatim>\<open>BAR\<close> followed by the Kelvin sign, whose lower case is \<^verbatim>\<open>k\<close>.
  The dispatch is reached once the input file is loaded: a file that is not UTF-8 ends
  the call before it, with \<^verbatim>\<open>None\<close> and no engine run.
\<close>

lemma lower_known_names:
  "lower ''BARK'' = ''bark'' \<and> lower ''Voice_Clone'' = ''voice_clone'' \<and>
   lower (''BAR'' @ [CHR 0xE2, CHR 0x84, CHR 0xAA]) = ''bark'' \<and>
   lower (''bar'' @ [CHR 0xC4, CHR 0xB8]) \<noteq> ''bark''"
  by code_simp

lemma undecodable_input_reaches_no_engine:
  "fst (text_to_speech quiet_env ''/app/outputs/translated.txt''
          ''/app/outputs/dubbed_audio.wav'' ''tr'' ''eSpeak'' None
          \<lparr>files = [''/app/outputs/translated.txt'' \<mapsto> [CHR 0xFF, CHR 0xFE]], trace = []\<rparr>)
     = None \<and>
   list_all is_log (trace (snd (text_to_speech quiet_env ''/app/outputs/translated.txt''
          ''/app/outputs/dubbed_audio.wav'' ''tr'' ''eSpeak'' None
          \<lparr>files = [''/app/outputs/translated.txt'' \<mapsto> [CHR 0xFF, CHR 0xFE]], trace = []\<rparr>)))"
  by (simp add: text_to_speech_def helper_defs logger_def Let_def)

text \<open>
  C10. For every engine name that is none of \<^verbatim>\<open>bark\<close>, \<^verbatim>\<open>coqui\<close>, \<^verbatim>\<open>gtts\<close>, \<^verbatim>\<open>voice_clone\<close>
  after \<^verbatim>\<open>lower()\<close>, \<^verbatim>\<open>text_to_speech\<close>, given an input file that holds UTF-8 text, does
  not fail for the unknown name: it logs the unknown engine and the fallback, and its
  result is the result of \<^verbatim>\<open>generate_speech_gtts\<close> on the text read from the file.
\<close>

theorem unknown_engine_falls_back_to_gtts:
  assumes "lower engine \<notin> {''bark'', ''coqui'', ''gtts'', ''voice_clone''}"
    and "files w inp = Some content"
    and "utf8_valid content"
  shows "text_to_speech env inp out lang engine ref w =
         generate_speech_gtts env (newlines content) out lang
           (logger INFO ''Falling back to Google TTS''
              (logger ERROR (''Unknown TTS engine: '' @ engine)
                 (logger INFO (''Loaded text from '' @ inp @ '' ('' @
                      str_nat (py_len (newlines content)) @ '' characters)'')
                    (logger INFO (''Converting text to speech: '' @ inp @ '' using '' @
                         engine @ '' engine'') w))))"
  using assms by (simp add: text_to_speech_def exists_def read_file_def Let_def)

text \<open>
  The engine name \<^verbatim>\<open>eSpeak\<close> and a text with a letter outside ASCII (seven characters in
  eight bytes) and a line end of Windows: gTTS runs on the text as Python reads it, and
  its output path is the result.
\<close>

theorem unknown_engine_falls_back_to_gtts_witness:
  "lower ''eSpeak'' \<notin> {''bark'', ''coqui'', ''gtts'', ''voice_clone''} \<and>
   utf8_valid (''g'' @ [CHR 0xC3, CHR 0xBC] @ ''nay'' @ [CHR 0x0D, CHR 0x0A]) \<and>
   text_to_speech quiet_env ''/app/outputs/translated.txt''
          ''/app/outputs/dubbed_audio.wav'' ''tr'' ''eSpeak'' None
          \<lparr>files = [''/app/outputs/translated.txt'' \<mapsto>
                      ''g'' @ [CHR 0xC3, CHR 0xBC] @ ''nay'' @ [CHR 0x0D, CHR 0x0A]],
           trace = []\<rparr> =
     (Some ''/app/outputs/dubbed_audio.wav'',
      \<lparr>files = [''/app/outputs/translated.txt'' \<mapsto>
                  ''g'' @ [CHR 0xC3, CHR 0xBC] @ ''nay'' @ [CHR 0x0D, CHR 0x0A],
                ''/app/outputs/dubbed_audio.wav'' \<mapsto> ''SPEECH''],
       trace =
         [Log INFO ''Converting text to speech: /app/outputs/translated.txt using eSpeak engine'',
          Log INFO ''Loaded text from /app/outputs/translated.txt (6 characters)'',
          Log ERROR ''Unknown TTS engine: eSpeak'',
          Log INFO ''Falling back to Google TTS'',
          Log INFO ''Generating speech using Google TTS (language: tr)'',
          Invoke GTTS [''g'' @ [CHR 0xC3, CHR 0xBC] @ ''nay'' @ [CHR 0x0A], ''tr''],
          Log INFO ''Speech generated successfully to /app/outputs/dubbed_audio.wav'',
          Log INFO ''Generation time, Size'']\<rparr>)"
proof -
  let ?c = "''g'' @ [CHR 0xC3, CHR 0xBC] @ ''nay'' @ [CHR 0x0D, CHR 0x0A]"
  let ?w = "\<lparr>files = [''/app/outputs/translated.txt'' \<mapsto> ?c], trace = []\<rparr>"
  have h1: "lower ''eSpeak'' \<notin> {''bark'', ''coqui'', ''gtts'', ''voice_clone''}"
    by (simp add: lower_char_def)
  have h2: "files ?w ''/app/outputs/translated.txt'' = Some ?c"
    by simp
  have h3: "utf8_valid ?c"
    by (simp add: byte_def continuation_def)
  have n: "newlines ?c = ''g'' @ [CHR 0xC3, CHR 0xBC] @ ''nay'' @ [CHR 0x0A]"
    by simp
  have l: "str_nat (py_len (''g'' @ [CHR 0xC3, CHR 0xBC] @ ''nay'' @ [CHR 0x0A])) = ''6''"
    by (simp add: py_len_def continuation_def byte_def str_nat.simps digit_def)
  show ?thesis
    using h1 h3
      unknown_engine_falls_back_to_gtts [OF h1 h2 h3, of quiet_env
        "''/app/outputs/dubbed_audio.wav''" "''tr''" None]
    unfolding n l
    by (simp add: synthesizer_defs helper_defs logger_def emit_def quiet_env_def)
qed

section \<open>C8: the command lines of ffmpeg and its exit code\<close>

lemma extract_audio_success_iff:
  "(fst (extract_audio env v a sr ch w) = Inr (Some p)) =
     (p = a \<and> exists (files w) v \<and> makedirs env a = None \<and>
      (\<exists>err f. ffmpeg env (extract_cmd v a sr ch) (files w) = Returns (0, err) f \<and>
         f a \<noteq> None))"
  unfolding extract_audio_def Let_def getsize_def
  by (auto split: option.splits outcome.splits sum.splits prod.splits)

lemma extract_audio_invokes:
  "exists (files w) v \<Longrightarrow> makedirs env a = None \<Longrightarrow>
     Invoke FFmpeg (extract_cmd v a sr ch) \<in> set (new_events w (snd (extract_audio env v a sr ch w)))"
  unfolding extract_audio_def Let_def getsize_def
  by (auto simp: new_events_def extract_except_def
      split: option.splits outcome.splits sum.splits prod.splits exn.splits)

lemma merge_video_audio_ffmpeg_success_iff:
  "(fst (merge_video_audio_ffmpeg env v a out w) = Inr (Some p)) =
     (p = out \<and> exists (files w) v \<and> exists (files w) a \<and> makedirs env out = None \<and>
      (\<exists>err f. ffmpeg env (merge_cmd v a out) (files w) = Returns (0, err) f \<and>
         f out \<noteq> None))"
  unfolding merge_video_audio_ffmpeg_def Let_def getsize_def
  by (auto split: option.splits outcome.splits sum.splits prod.splits)

lemma merge_video_audio_success_iff:
  "(fst (merge_video_audio env v a out True w) = Some p) =
     (p = out \<and> exists (files w) v \<and> exists (files w) a \<and> makedirs env out = None \<and>
      (\<exists>err f. ffmpeg env (merge_cmd v a out) (files w) = Returns (0, err) f \<and>
         f out \<noteq> None))"
proof -
  obtain r w1 where m: "merge_video_audio_ffmpeg env v a out w = (r, w1)"
    by force
  with merge_video_audio_ffmpeg_never_raises [of env v a out w] obtain q where q: "r = Inr q"
    by auto
  have "fst (merge_video_audio env v a out True w) = q"
    using m q by (simp add: merge_video_audio_def)
  moreover have "(q = Some p) = (fst (merge_video_audio_ffmpeg env v a out w) = Inr (Some p))"
    using m q by simp
  ultimately show ?thesis
    using merge_video_audio_ffmpeg_success_iff [of env v a out w p] by simp
qed

lemma merge_video_audio_invokes:
  "exists (files w) v \<Longrightarrow> exists (files w) a \<Longrightarrow> makedirs env out = None \<Longrightarrow>
     Invoke FFmpeg (merge_cmd v a out)
       \<in> set (new_events w (snd (merge_video_audio env v a out True w)))"
proof -
  assume h: "exists (files w) v" "exists (files w) a" "makedirs env out = None"
  have "Invoke FFmpeg (merge_cmd v a out)
      \<in> set (new_events w (snd (merge_video_audio_ffmpeg env v a out w)))"
    unfolding merge_video_audio_ffmpeg_def Let_def getsize_def using h
    by (auto simp: new_events_def merge_ffmpeg_except_def
        split: option.splits outcome.splits sum.splits prod.splits exn.splits)
  then show ?thesis
    unfolding merge_video_audio_is_ffmpeg by (auto split: prod.splits)
qed

text \<open>
  What a run of \<^verbatim>\<open>process_video\<close> invokes: every stage function adds to the trace only
  entries that satisfy \<open>transcoder_call\<close>, the Extractor when it is called on the
  downloaded video with the sample rate 16000 and one channel, the Muxer when it is
  called on the downloaded video and the dubbed audio with \<^verbatim>\<open>use_ffmpeg=True\<close>.
\<close>

lemma adds_refl: "adds P w w"
  by (simp add: adds_def)

lemma tc_logger:
  "adds (transcoder_call c) w w' \<Longrightarrow> adds (transcoder_call c) w (logger l m w')"
  by (auto simp: adds_def)

lemma tc_invoke:
  "t \<noteq> FFmpeg \<Longrightarrow> t \<noteq> MoviePy \<Longrightarrow> adds (transcoder_call c) w w' \<Longrightarrow>
     adds (transcoder_call c) w (emit (Invoke t a) w')"
  by (auto simp: adds_def)

lemma tc_files: "adds P w w' \<Longrightarrow> adds P w (w'\<lparr>files := f\<rparr>)"
  by (auto simp: adds_def)

lemma tc_write: "adds P w w' \<Longrightarrow> adds P w (write_file p x w')"
  by (auto simp: adds_def)

lemma tc_ghost:
  "adds (transcoder_call c) w w' \<Longrightarrow> adds (transcoder_call c) w (emit (StageCall k ps) w')"
  "adds (transcoder_call c) w w' \<Longrightarrow> adds (transcoder_call c) w (emit (StageReturn k r) w')"
  "adds (transcoder_call c) w w' \<Longrightarrow> adds (transcoder_call c) w (emit (StageRaised k e) w')"
  "adds (transcoder_call c) w w' \<Longrightarrow> adds (transcoder_call c) w (emit (Handoff k p x) w')"
  by (auto simp: adds_def)

lemma tc_extract:
  "adds (transcoder_call c) w w' \<Longrightarrow>
     adds (transcoder_call c) w
       (emit (Invoke FFmpeg (extract_cmd (TEMP_VIDEO_PATH c) (TEMP_AUDIO_PATH c) 16000 1)) w')"
  by (auto simp: adds_def)

lemma tc_merge:
  "adds (transcoder_call c) w w' \<Longrightarrow>
     adds (transcoder_call c) w
       (emit (Invoke FFmpeg (merge_cmd (TEMP_VIDEO_PATH c) (TEMP_DUBBED_AUDIO_PATH c)
          (OUTPUT_VIDEO_PATH c))) w')"
  by (auto simp: adds_def)

lemmas tc_quiet = adds_refl tc_logger tc_files tc_write

lemmas tc = tc_quiet tc_invoke

lemma yt_dlp_except_tc:
  "adds (transcoder_call c) w w' \<Longrightarrow> adds (transcoder_call c) w (snd (yt_dlp_except e w'))"
  by (cases e) (simp_all add: yt_dlp_except_def tc)

lemma download_video_with_yt_dlp_tc:
  "adds (transcoder_call c) w w' \<Longrightarrow> adds (transcoder_call c) w (snd (download_video_with_yt_dlp env u p r w'))"
  unfolding download_video_with_yt_dlp_def Let_def
  by (auto split: option.splits outcome.splits sum.splits prod.splits intro!: tc yt_dlp_except_tc)

lemma pytube_except_tc:
  "adds (transcoder_call c) w w' \<Longrightarrow> adds (transcoder_call c) w (pytube_except e w')"
  by (cases e) (simp_all add: pytube_except_def tc)

lemma pytube_try_tc:
  "adds (transcoder_call c) w w' \<Longrightarrow> adds (transcoder_call c) w (snd (pytube_try env u p r w'))"
  unfolding pytube_try_def Let_def
  by (auto split: option.splits outcome.splits sum.splits intro!: tc)

lemma download_youtube_video_tc:
  "adds (transcoder_call c) w w' \<Longrightarrow> adds (transcoder_call c) w (snd (download_youtube_video env u p r w'))"
proof -
  assume h: "adds (transcoder_call c) w w'"
  have t: "adds (transcoder_call c) w (snd (pytube_try env u p r
      (emit (Invoke Pytube [u]) (logger INFO (''Downloading YouTube video: '' @ u) w'))))"
    by (intro pytube_try_tc tc h) simp_all
  show ?thesis
    unfolding download_youtube_video_def Let_def using t
    by (auto split: prod.splits sum.splits
        intro!: download_video_with_yt_dlp_tc pytube_except_tc)
qed

lemma extract_except_tc:
  "adds (transcoder_call c) w w' \<Longrightarrow> adds (transcoder_call c) w (snd (extract_except e w'))"
  by (cases e) (simp_all add: extract_except_def tc)

lemma extract_audio_tc:
  "adds (transcoder_call c) w w' \<Longrightarrow>
     adds (transcoder_call c) w
       (snd (extract_audio env (TEMP_VIDEO_PATH c) (TEMP_AUDIO_PATH c) 16000 1 w'))"
  unfolding extract_audio_def Let_def
  by (auto split: option.splits outcome.splits sum.splits prod.splits
      intro!: tc_quiet tc_extract extract_except_tc)

lemma transcribe_audio_tc:
  "adds (transcoder_call c) w w' \<Longrightarrow> adds (transcoder_call c) w (snd (transcribe_audio env a p m l w'))"
  unfolding transcribe_audio_def transcribe_except_def Let_def
  by (auto split: option.splits sum.splits intro!: tc)

lemma translate_text_google_tc:
  "adds (transcoder_call c) w w' \<Longrightarrow> adds (transcoder_call c) w (snd (translate_text_google env t s d w'))"
  unfolding translate_text_google_def Let_def
  by (auto split: sum.splits intro!: tc)

lemma translate_text_openai_tc:
  "adds (transcoder_call c) w w' \<Longrightarrow> adds (transcoder_call c) w (snd (translate_text_openai env t s d w'))"
  unfolding translate_text_openai_def Let_def
  by (auto split: sum.splits option.splits intro!: tc)

lemma translate_file_save_tc:
  "adds (transcoder_call c) w (snd tw) \<Longrightarrow> adds (transcoder_call c) w (snd (translate_file_save env p tw))"
  unfolding translate_file_save_def Let_def
  by (auto split: prod.splits option.splits intro!: tc)

lemma translate_file_tc:
  "adds (transcoder_call c) w w' \<Longrightarrow> adds (transcoder_call c) w (snd (translate_file env i p s d g w'))"
  unfolding translate_file_def Let_def
  by (auto split: sum.splits
      intro!: tc translate_file_save_tc translate_text_google_tc translate_text_openai_tc)

lemma merge_ffmpeg_except_tc:
  "adds (transcoder_call c) w w' \<Longrightarrow> adds (transcoder_call c) w (snd (merge_ffmpeg_except e w'))"
  by (cases e) (simp_all add: merge_ffmpeg_except_def tc)

lemma merge_video_audio_ffmpeg_tc:
  "adds (transcoder_call c) w w' \<Longrightarrow>
     adds (transcoder_call c) w
       (snd (merge_video_audio_ffmpeg env (TEMP_VIDEO_PATH c) (TEMP_DUBBED_AUDIO_PATH c)
               (OUTPUT_VIDEO_PATH c) w'))"
  unfolding merge_video_audio_ffmpeg_def Let_def
  by (auto split: option.splits outcome.splits sum.splits prod.splits
      intro!: tc_quiet tc_merge merge_ffmpeg_except_tc)

lemma merge_video_audio_tc:
  "adds (transcoder_call c) w w' \<Longrightarrow>
     adds (transcoder_call c) w
       (snd (merge_video_audio env (TEMP_VIDEO_PATH c) (TEMP_DUBBED_AUDIO_PATH c)
               (OUTPUT_VIDEO_PATH c) True w'))"
  unfolding merge_video_audio_is_ffmpeg
  using merge_video_audio_ffmpeg_tc [of c w w' env] by (auto split: prod.splits)

lemma bark_except_tc: "adds (transcoder_call c) w w' \<Longrightarrow> adds (transcoder_call c) w (snd (bark_except e w'))"
  by (cases e) (simp_all add: bark_except_def tc)

lemma coqui_except_tc: "adds (transcoder_call c) w w' \<Longrightarrow> adds (transcoder_call c) w (snd (coqui_except e w'))"
  by (cases e) (simp_all add: coqui_except_def tc)

lemma voice_clone_except_tc:
  "adds (transcoder_call c) w w' \<Longrightarrow> adds (transcoder_call c) w (snd (voice_clone_except e w'))"
  by (cases e) (simp_all add: voice_clone_except_def tc)

lemma resolve_lang_tc:
  "adds (transcoder_call c) w w' \<Longrightarrow> adds (transcoder_call c) w (snd (resolve_lang t l w'))"
  unfolding resolve_lang_def by (auto split: option.splits intro!: tc)

lemma generate_speech_bark_tc:
  "adds (transcoder_call c) w w' \<Longrightarrow> adds (transcoder_call c) w (snd (generate_speech_bark env t p l w'))"
  unfolding generate_speech_bark_def Let_def
  by (auto split: option.splits sum.splits intro!: tc bark_except_tc)

lemma generate_speech_coqui_tc:
  "adds (transcoder_call c) w w' \<Longrightarrow> adds (transcoder_call c) w (snd (generate_speech_coqui env t p l w'))"
  unfolding generate_speech_coqui_def Let_def
  by (auto split: option.splits sum.splits outcome.splits intro!: tc coqui_except_tc)

lemma generate_speech_voice_clone_tc:
  "adds (transcoder_call c) w w' \<Longrightarrow> adds (transcoder_call c) w (snd (generate_speech_voice_clone env t p r l w'))"
proof -
  assume h: "adds (transcoder_call c) w w'"
  have r: "adds (transcoder_call c) w (snd (resolve_lang your_tts_lang_mapping l
             (logger INFO (''Generating speech using voice cloning with reference: '' @ r) w')))"
    by (intro resolve_lang_tc tc h)
  show ?thesis
    unfolding generate_speech_voice_clone_def Let_def
    using r h
    by (auto split: option.splits sum.splits outcome.splits prod.splits
        intro!: tc voice_clone_except_tc)
qed

lemma generate_speech_gtts_tc:
  "adds (transcoder_call c) w w' \<Longrightarrow> adds (transcoder_call c) w (snd (generate_speech_gtts env t p l w'))"
proof -
  assume h: "adds (transcoder_call c) w w'"
  have r: "adds (transcoder_call c) w (snd (resolve_lang gtts_lang_mapping l
             (logger INFO (''Generating speech using Google TTS (language: '' @ l @ '')'') w')))"
    by (intro resolve_lang_tc tc h)
  show ?thesis
    unfolding generate_speech_gtts_def gtts_except_def Let_def
    using r h
    by (auto split: option.splits sum.splits outcome.splits prod.splits intro!: tc)
qed

lemma text_to_speech_tc:
  "adds (transcoder_call c) w w' \<Longrightarrow> adds (transcoder_call c) w (snd (text_to_speech env i p l g r w'))"
  unfolding text_to_speech_def Let_def
  by (auto split: option.splits sum.splits
      intro!: tc generate_speech_bark_tc generate_speech_coqui_tc generate_speech_gtts_tc
        generate_speech_voice_clone_tc)

lemma clone_voice_fallback_tc:
  "adds (transcoder_call c) w w' \<Longrightarrow> adds (transcoder_call c) w (snd (clone_voice_fallback env t l p w'))"
  unfolding clone_voice_fallback_def Let_def
  by (auto split: option.splits sum.splits outcome.splits intro!: tc)

lemma clone_voice_and_speak_tc:
  "adds (transcoder_call c) w w' \<Longrightarrow> adds (transcoder_call c) w (snd (clone_voice_and_speak env t s l p w'))"
  unfolding clone_voice_and_speak_def Let_def
  by (auto split: option.splits sum.splits outcome.splits
      intro!: tc clone_voice_fallback_tc)

lemma clone_voice_fallback_path:
  "clone_voice_fallback env t l (Some out) w = (Inr (Some p), w') \<Longrightarrow> out \<noteq> [] \<Longrightarrow> p = out"
  unfolding clone_voice_fallback_def Let_def resolve_output_def ensure_dir_def truthy_def
    str_opt_def
  by (auto split: option.splits sum.splits outcome.splits if_splits)

lemma clone_voice_and_speak_path:
  "clone_voice_and_speak env t s l (Some out) w = (Inr (Some p), w') \<Longrightarrow> out \<noteq> [] \<Longrightarrow> p = out"
  unfolding clone_voice_and_speak_def Let_def
  by (auto split: option.splits sum.splits outcome.splits if_splits
      dest: clone_voice_fallback_path)


lemma TEMP_DUBBED_AUDIO_PATH_nonempty: "TEMP_DUBBED_AUDIO_PATH env \<noteq> []"
  by (simp add: settings_defs)

lemma step6_tc:
  assumes "adds (transcoder_call env) w w0"
  shows "adds (transcoder_call env) w
           (snd (step6 env (TEMP_VIDEO_PATH env) (TEMP_DUBBED_AUDIO_PATH env) w0))"
proof -
  let ?v = "TEMP_VIDEO_PATH env" and ?d = "TEMP_DUBBED_AUDIO_PATH env"
  define w1 where "w1 = emit (StageCall 6 [?v, ?d]) (emit (Handoff 5 ?d (files w0 ?d)) w0)"
  have a1: "adds (transcoder_call env) w w1"
    unfolding w1_def by (intro tc_ghost assms)
  obtain r w2 where m: "merge_video_audio env ?v ?d (OUTPUT_VIDEO_PATH env) True w1 = (r, w2)"
    by force
  have a2: "adds (transcoder_call env) w w2"
    using merge_video_audio_tc [OF a1, of env] m by simp
  show ?thesis
    unfolding step6_def Let_def using m [unfolded w1_def]
    by (auto intro!: tc_quiet tc_ghost a2)
qed

lemma step5_check_tc:
  assumes "adds (transcoder_call env) w w0"
    and "d = None \<or> d = Some (TEMP_DUBBED_AUDIO_PATH env)"
  shows "adds (transcoder_call env) w (snd (step5_check env (TEMP_VIDEO_PATH env) d w0))"
proof -
  have a: "adds (transcoder_call env) w (emit (StageReturn 5 d) w0)"
    by (intro tc_ghost assms(1))
  from assms(2) show ?thesis
  proof
    assume "d = None"
    then show ?thesis
      unfolding step5_check_def Let_def by (auto intro!: tc_quiet tc_ghost assms(1))
  next
    assume d: "d = Some (TEMP_DUBBED_AUDIO_PATH env)"
    have "adds (transcoder_call env) w
        (snd (step6 env (TEMP_VIDEO_PATH env) (TEMP_DUBBED_AUDIO_PATH env)
           (emit (StageReturn 5 d) w0)))"
      by (rule step6_tc [OF a])
    then show ?thesis
      unfolding step5_check_def Let_def d
      by (auto intro!: tc_quiet tc_ghost assms(1))
  qed
qed

lemma step5_tc:
  assumes "adds (transcoder_call env) w w0"
  shows "adds (transcoder_call env) w
           (snd (step5 env tgt eng ref (TEMP_VIDEO_PATH env) tp w0))"
proof -
  let ?d = "TEMP_DUBBED_AUDIO_PATH env"
  define w1 where "w1 = emit (StageCall 5 [tp]) (emit (Handoff 4 tp (files w0 tp)) w0)"
  have a1: "adds (transcoder_call env) w w1"
    unfolding w1_def by (intro tc_ghost assms)
  show ?thesis
  proof (cases "eng = ''voice_clone'' \<and> truthy ref")
    case True
    show ?thesis
    proof (cases "read_file (files w0) tp")
      case (Inl e)
      then show ?thesis
        unfolding step5_def if_P [OF True] by (simp add: assms)
    next
      case (Inr body)
      obtain r w2 where c: "clone_voice_and_speak env body ref tgt (Some ?d) w1 = (r, w2)"
        by force
      have a2: "adds (transcoder_call env) w w2"
        using clone_voice_and_speak_tc [OF a1, of env body ref tgt "Some ?d"] c by simp
      show ?thesis
      proof (cases r)
        case (Inl e)
        show ?thesis
          unfolding step5_def if_P [OF True] Let_def using Inr c [unfolded w1_def] Inl
          by (auto intro!: tc_ghost a2)
      next
        case (Inr d)
        have "d = None \<or> d = Some ?d"
          using clone_voice_and_speak_path [of env body ref tgt ?d w1 _ w2] c Inr
            TEMP_DUBBED_AUDIO_PATH_nonempty [of env]
          by (cases d) auto
        then have "adds (transcoder_call env) w
            (snd (step5_check env (TEMP_VIDEO_PATH env) d w2))"
          by (rule step5_check_tc [OF a2])
        then show ?thesis
          unfolding step5_def if_P [OF True] Let_def
          using \<open>read_file (files w0) tp = Inr body\<close> c [unfolded w1_def] Inr
          by simp
      qed
    qed
  next
    case False
    obtain d w2 where c: "text_to_speech env tp ?d tgt eng ref w1 = (d, w2)"
      by force
    have a2: "adds (transcoder_call env) w w2"
      using text_to_speech_tc [OF a1, of env tp ?d tgt eng ref] c by simp
    have "d = None \<or> d = Some ?d"
      using text_to_speech_some [of env tp ?d tgt eng ref w1 _ w2] c by (cases d) auto
    then have "adds (transcoder_call env) w
        (snd (step5_check env (TEMP_VIDEO_PATH env) d w2))"
      by (rule step5_check_tc [OF a2])
    then show ?thesis
      unfolding step5_def if_not_P [OF False] Let_def using c [unfolded w1_def] by simp
  qed
qed

lemma step4_tc:
  assumes "adds (transcoder_call env) w w0"
  shows "adds (transcoder_call env) w
           (snd (step4 env src tgt eng ref (TEMP_VIDEO_PATH env) tp w0))"
proof -
  define w1 where "w1 = emit (StageCall 4 [tp]) (emit (Handoff 3 tp (files w0 tp)) w0)"
  have a1: "adds (transcoder_call env) w w1"
    unfolding w1_def by (intro tc_ghost assms)
  obtain r w2 where c: "translate_file env tp (TEMP_TRANSLATED_PATH env) src tgt
      TRANSLATION_ENGINE w1 = (r, w2)"
    by force
  have a2: "adds (transcoder_call env) w w2"
    using translate_file_tc [OF a1, of env tp "TEMP_TRANSLATED_PATH env" src tgt
        TRANSLATION_ENGINE] c by simp
  have a3: "adds (transcoder_call env) w (emit (StageReturn 4 r) w2)"
    by (intro tc_ghost a2)
  have "adds (transcoder_call env) w
      (snd (step5 env tgt eng ref (TEMP_VIDEO_PATH env) p (emit (StageReturn 4 r) w2)))" for p
    by (rule step5_tc [OF a3])
  then show ?thesis
    unfolding step4_def Let_def using c [unfolded w1_def] a3
    by (auto split: option.splits sum.splits intro!: tc_quiet)
qed

lemma step3_tc:
  assumes "adds (transcoder_call env) w w0"
  shows "adds (transcoder_call env) w
           (snd (step3 env src tgt eng ref (TEMP_VIDEO_PATH env) ap w0))"
proof -
  define w1 where "w1 = emit (StageCall 3 [ap]) (emit (Handoff 2 ap (files w0 ap)) w0)"
  have a1: "adds (transcoder_call env) w w1"
    unfolding w1_def by (intro tc_ghost assms)
  obtain r w2 where c: "transcribe_audio env ap (TEMP_TRANSCRIPT_PATH env) WHISPER_MODEL src w1
      = (r, w2)"
    by force
  have a2: "adds (transcoder_call env) w w2"
    using transcribe_audio_tc [OF a1, of env ap "TEMP_TRANSCRIPT_PATH env" WHISPER_MODEL src] c
    by simp
  have a3: "adds (transcoder_call env) w (emit (StageReturn 3 r) w2)"
    by (intro tc_ghost a2)
  have "adds (transcoder_call env) w
      (snd (step4 env src tgt eng ref (TEMP_VIDEO_PATH env) p (emit (StageReturn 3 r) w2)))" for p
    by (rule step4_tc [OF a3])
  then show ?thesis
    unfolding step3_def Let_def using c [unfolded w1_def] a3
    by (auto split: option.splits sum.splits intro!: tc_quiet)
qed

lemma step2_tc:
  assumes "adds (transcoder_call env) w w0"
  shows "adds (transcoder_call env) w (snd (step2 env src tgt eng ref (TEMP_VIDEO_PATH env) w0))"
proof -
  let ?v = "TEMP_VIDEO_PATH env"
  define w1 where "w1 = emit (StageCall 2 [?v]) (emit (Handoff 1 ?v (files w0 ?v)) w0)"
  have a1: "adds (transcoder_call env) w w1"
    unfolding w1_def by (intro tc_ghost assms)
  obtain r w2 where c: "extract_audio env ?v (TEMP_AUDIO_PATH env) 16000 1 w1 = (r, w2)"
    by force
  have a2: "adds (transcoder_call env) w w2"
    using extract_audio_tc [OF a1, of env] c by simp
  have a3: "adds (transcoder_call env) w (emit (StageReturn 2 q) w2)" for q
    by (intro tc_ghost a2)
  have "adds (transcoder_call env) w
      (snd (step3 env src tgt eng ref ?v p (emit (StageReturn 2 q) w2)))" for p q
    by (rule step3_tc [OF a3])
  then show ?thesis
    unfolding step2_def Let_def using c [unfolded w1_def] a3
    by (auto split: option.splits sum.splits intro!: tc_quiet tc_ghost a2)
qed

lemma step1_tc:
  assumes "adds (transcoder_call env) w w0"
  shows "adds (transcoder_call env) w (snd (step1 env url src tgt eng ref w0))"
proof -
  let ?v = "TEMP_VIDEO_PATH env"
  define w1 where "w1 = emit (StageCall 1 []) w0"
  have a1: "adds (transcoder_call env) w w1"
    unfolding w1_def by (intro tc_ghost assms)
  obtain r w2 where c: "download_youtube_video env url ?v ''720p'' w1 = (r, w2)"
    by force
  have a2: "adds (transcoder_call env) w w2"
    using download_youtube_video_tc [OF a1, of env url ?v "''720p''"] c by simp
  have a3: "adds (transcoder_call env) w (emit (StageReturn 1 r) w2)"
    by (intro tc_ghost a2)
  have p: "r = None \<or> r = Some ?v"
    using download_youtube_video_some [of env url ?v "''720p''" w1 _ w2] c by (cases r) auto
  have "adds (transcoder_call env) w
      (snd (step2 env src tgt eng ref ?v (emit (StageReturn 1 r) w2)))"
    by (rule step2_tc [OF a3])
  then show ?thesis
    unfolding step1_def Let_def using c [unfolded w1_def] a3 p
    by (auto split: option.splits intro!: tc_quiet)
qed

lemma process_video_tc:
  "adds (transcoder_call env) w (snd (process_video env url src tgt eng ref w))"
proof -
  define w1 where "w1 = logger INFO sep50
      (logger INFO (''Source language: '' @ src @ '', Target language: '' @ tgt)
         (logger INFO (''Starting AI dubbing process for: '' @ url) (logger INFO sep50 w)))"
  have a1: "adds (transcoder_call env) w w1"
    unfolding w1_def by (intro tc_quiet)
  have "adds (transcoder_call env) w (snd (step1 env url src tgt eng ref w1))"
    by (rule step1_tc [OF a1])
  then show ?thesis
    unfolding process_video_def Let_def w1_def
    by (auto split: prod.splits sum.splits intro!: tc_quiet)
qed

lemma process_video_transcoder_calls:
  "list_all (transcoder_call env) (new_events w (snd (process_video env url src tgt eng ref w)))"
  using process_video_tc [of env w url src tgt eng ref]
  by (auto simp: adds_def new_events_def)

text \<open>
  C8. The Extractor, called as \<^verbatim>\<open>process_video\<close> calls it (sample rate 16000, one
  channel), runs ffmpeg with the arguments \<^verbatim>\<open>-ar 16000 -ac 1\<close>; the Muxer runs it with the
  video as input 0, the audio as input 1 and \<^verbatim>\<open>-map 0:v:0 -map 1:a:0\<close>. Either stage
  returns its output path exactly when ffmpeg was run, exited with code 0 and the
  output file is there; with a non-zero exit code or a missing output file the stage
  does not return a path. In every run of \<^verbatim>\<open>process_video\<close> each invocation of ffmpeg is
  one of these two command lines, on the downloaded video, the temporary audio, the
  dubbed audio and the output video of the settings, and MoviePy is never run.
\<close>

theorem transcoder_arguments_and_exit_code:
  "extract_cmd v a 16000 1 =
     [''ffmpeg'', ''-y'', ''-i'', v, ''-vn'', ''-acodec'', ''pcm_s16le'', ''-ar'', ''16000'',
      ''-ac'', ''1'', a] \<and>
   merge_cmd v d out =
     [''ffmpeg'', ''-y'', ''-i'', v, ''-i'', d, ''-map'', ''0:v:0'', ''-map'', ''1:a:0'',
      ''-c:v'', ''copy'', ''-c:a'', ''aac'', ''-b:a'', ''192k'', ''-shortest'', out] \<and>
   (exists (files w) v \<and> makedirs env a = None \<longrightarrow>
      Invoke FFmpeg (extract_cmd v a 16000 1)
        \<in> set (new_events w (snd (extract_audio env v a 16000 1 w)))) \<and>
   (exists (files w) v \<and> exists (files w) d \<and> makedirs env out = None \<longrightarrow>
      Invoke FFmpeg (merge_cmd v d out)
        \<in> set (new_events w (snd (merge_video_audio env v d out True w)))) \<and>
   ((fst (extract_audio env v a 16000 1 w) = Inr (Some p)) =
      (p = a \<and> exists (files w) v \<and> makedirs env a = None \<and>
       (\<exists>err f. ffmpeg env (extract_cmd v a 16000 1) (files w) = Returns (0, err) f \<and>
          f a \<noteq> None))) \<and>
   ((fst (merge_video_audio env v d out True w) = Some q) =
      (q = out \<and> exists (files w) v \<and> exists (files w) d \<and> makedirs env out = None \<and>
       (\<exists>err f. ffmpeg env (merge_cmd v d out) (files w) = Returns (0, err) f \<and>
          f out \<noteq> None))) \<and>
   list_all (transcoder_call env)
     (new_events w0 (snd (process_video env url src tgt eng ref w0)))"
proof -
  have c1: "extract_cmd v a 16000 1 =
     [''ffmpeg'', ''-y'', ''-i'', v, ''-vn'', ''-acodec'', ''pcm_s16le'', ''-ar'', ''16000'',
      ''-ac'', ''1'', a]"
    by (simp add: extract_cmd_def str_int_def str_nat.simps digit_def)
  have c2: "merge_cmd v d out =
     [''ffmpeg'', ''-y'', ''-i'', v, ''-i'', d, ''-map'', ''0:v:0'', ''-map'', ''1:a:0'',
      ''-c:v'', ''copy'', ''-c:a'', ''aac'', ''-b:a'', ''192k'', ''-shortest'', out]"
    by (simp add: merge_cmd_def)
  note i1 = extract_audio_invokes [of w v env a 16000 1]
  note i2 = merge_video_audio_invokes [of w v d env out]
  note s1 = extract_audio_success_iff [of env v a 16000 1 w p]
  note s2 = merge_video_audio_success_iff [of env v d out w q]
  have r: "list_all (transcoder_call env)
      (new_events w0 (snd (process_video env url src tgt eng ref w0)))"
    using process_video_tc [of env w0 url src tgt eng ref]
    by (auto simp: adds_def new_events_def)
  show ?thesis
    apply (intro conjI impI)
          apply (rule c1)
         apply (rule c2)
        apply (erule conjE, erule (1) i1)
       apply (elim conjE, erule (2) i2)
      apply (rule s1)
     apply (rule s2)
    apply (rule r)
    done
qed

text \<open>
  A run of ffmpeg that exits with code 1: the Extractor and the Muxer were given their
  inputs and invoked ffmpeg, and neither returns a path. In a complete run ffmpeg is
  invoked twice, with the two command lines.
\<close>

theorem transcoder_arguments_and_exit_code_witness:
  "exists (files media_world) ''/app/outputs/temp_video.mp4'' \<and>
   exists (files media_world) ''/app/outputs/dubbed_audio.wav'' \<and>
   makedirs ffmpeg_fails_env ''/app/outputs/temp_audio.wav'' = None \<and>
   makedirs ffmpeg_fails_env ''/app/outputs/dubbed_video.mp4'' = None \<and>
   ffmpeg ffmpeg_fails_env
     (extract_cmd ''/app/outputs/temp_video.mp4'' ''/app/outputs/temp_audio.wav'' 16000 1)
     (files media_world) = Returns (1, ''Invalid data'') (files media_world) \<and>
   Invoke FFmpeg
     [''ffmpeg'', ''-y'', ''-i'', ''/app/outputs/temp_video.mp4'', ''-vn'', ''-acodec'',
      ''pcm_s16le'', ''-ar'', ''16000'', ''-ac'', ''1'', ''/app/outputs/temp_audio.wav'']
     \<in> set (new_events media_world
         (snd (extract_audio ffmpeg_fails_env ''/app/outputs/temp_video.mp4''
                 ''/app/outputs/temp_audio.wav'' 16000 1 media_world))) \<and>
   fst (extract_audio ffmpeg_fails_env ''/app/outputs/temp_video.mp4''
          ''/app/outputs/temp_audio.wav'' 16000 1 media_world)
     \<noteq> Inr (Some ''/app/outputs/temp_audio.wav'') \<and>
   fst (merge_video_audio ffmpeg_fails_env ''/app/outputs/temp_video.mp4''
          ''/app/outputs/dubbed_audio.wav'' ''/app/outputs/dubbed_video.mp4'' True media_world)
     \<noteq> Some ''/app/outputs/dubbed_video.mp4'' \<and>
   list_all (transcoder_call quiet_env) (new_events empty_world
      (snd (process_video quiet_env ''u'' ''en'' ''tr'' ''gtts'' None empty_world))) \<and>
   filter (invokes FFmpeg) (new_events empty_world
      (snd (process_video quiet_env ''u'' ''en'' ''tr'' ''gtts'' None empty_world))) =
   [Invoke FFmpeg
      [''ffmpeg'', ''-y'', ''-i'', ''/app/outputs/temp_video.mp4'', ''-vn'', ''-acodec'',
       ''pcm_s16le'', ''-ar'', ''16000'', ''-ac'', ''1'', ''/app/outputs/temp_audio.wav''],
    Invoke FFmpeg
      [''ffmpeg'', ''-y'', ''-i'', ''/app/outputs/temp_video.mp4'', ''-i'',
       ''/app/outputs/dubbed_audio.wav'', ''-map'', ''0:v:0'', ''-map'', ''1:a:0'',
       ''-c:v'', ''copy'', ''-c:a'', ''aac'', ''-b:a'', ''192k'', ''-shortest'',
       ''/app/outputs/dubbed_video.mp4'']]"
proof -
  have h1: "exists (files media_world) ''/app/outputs/temp_video.mp4''"
    and h2: "exists (files media_world) ''/app/outputs/dubbed_audio.wav''"
    by (simp_all add: media_world_def exists_def)
  have h3: "makedirs ffmpeg_fails_env ''/app/outputs/temp_audio.wav'' = None"
    and h4: "makedirs ffmpeg_fails_env ''/app/outputs/dubbed_video.mp4'' = None"
    by (simp_all add: ffmpeg_fails_env_def quiet_env_def)
  have h5: "ffmpeg ffmpeg_fails_env cmd f = Returns (1, ''Invalid data'') f" for cmd f
    by (simp add: ffmpeg_fails_env_def quiet_env_def)
  note T = transcoder_arguments_and_exit_code [where v = "''/app/outputs/temp_video.mp4''"
        and a = "''/app/outputs/temp_audio.wav''" and d = "''/app/outputs/dubbed_audio.wav''"
        and out = "''/app/outputs/dubbed_video.mp4''" and w = media_world
        and env = ffmpeg_fails_env
        and p = "''/app/outputs/temp_audio.wav''" and q = "''/app/outputs/dubbed_video.mp4''"]
  have c: "extract_cmd ''/app/outputs/temp_video.mp4'' ''/app/outputs/temp_audio.wav'' 16000 1
      = [''ffmpeg'', ''-y'', ''-i'', ''/app/outputs/temp_video.mp4'', ''-vn'', ''-acodec'',
         ''pcm_s16le'', ''-ar'', ''16000'', ''-ac'', ''1'', ''/app/outputs/temp_audio.wav'']"
    using T by blast
  have i: "Invoke FFmpeg
      (extract_cmd ''/app/outputs/temp_video.mp4'' ''/app/outputs/temp_audio.wav'' 16000 1)
     \<in> set (new_events media_world
         (snd (extract_audio ffmpeg_fails_env ''/app/outputs/temp_video.mp4''
                 ''/app/outputs/temp_audio.wav'' 16000 1 media_world)))"
    using T h1 h3 by blast
  have e: "fst (extract_audio ffmpeg_fails_env ''/app/outputs/temp_video.mp4''
          ''/app/outputs/temp_audio.wav'' 16000 1 media_world)
     \<noteq> Inr (Some ''/app/outputs/temp_audio.wav'')"
    using T h5 by auto
  have m: "fst (merge_video_audio ffmpeg_fails_env ''/app/outputs/temp_video.mp4''
          ''/app/outputs/dubbed_audio.wav'' ''/app/outputs/dubbed_video.mp4'' True media_world)
     \<noteq> Some ''/app/outputs/dubbed_video.mp4''"
    using T h5 by auto
  have r: "list_all (transcoder_call quiet_env) (new_events empty_world
      (snd (process_video quiet_env ''u'' ''en'' ''tr'' ''gtts'' None empty_world)))"
    using transcoder_arguments_and_exit_code [where env = quiet_env and ?w0.0 = empty_world
        and url = "''u''" and src = "''en''" and tgt = "''tr''" and eng = "''gtts''"
        and ref = None]
    by blast
  have n: "filter (invokes FFmpeg) (new_events empty_world
      (snd (process_video quiet_env ''u'' ''en'' ''tr'' ''gtts'' None empty_world))) =
   [Invoke FFmpeg
      [''ffmpeg'', ''-y'', ''-i'', ''/app/outputs/temp_video.mp4'', ''-vn'', ''-acodec'',
       ''pcm_s16le'', ''-ar'', ''16000'', ''-ac'', ''1'', ''/app/outputs/temp_audio.wav''],
    Invoke FFmpeg
      [''ffmpeg'', ''-y'', ''-i'', ''/app/outputs/temp_video.mp4'', ''-i'',
       ''/app/outputs/dubbed_audio.wav'', ''-map'', ''0:v:0'', ''-map'', ''1:a:0'',
       ''-c:v'', ''copy'', ''-c:a'', ''aac'', ''-b:a'', ''192k'', ''-shortest'',
       ''/app/outputs/dubbed_video.mp4'']]"
    by (simp add: run_defs quiet_env_def invokes_def)
  show ?thesis
    using h1 h2 h3 h4 h5 i [unfolded c] e m r n by blast
qed

section \<open>C9: running the Muxer twice\<close>





text \<open>
  A tool that added to its output file would not do: it ends the same way whatever the
  output path held, but what it leaves there is neither what it leaves on an empty
  path nor what it found.
\<close>

lemma appending_tool_does_not_overwrite:
  "\<not> overwrites_output appending_env \<and> writes_only_output appending_env \<and>
   files (snd (merge_video_audio appending_env ''/app/outputs/temp_video.mp4''
                 ''/app/outputs/dubbed_audio.wav'' ''/app/outputs/dubbed_video.mp4'' True
                 media_world)) ''/app/outputs/dubbed_video.mp4'' = Some ''MEDIA'' \<and>
   files (snd (merge_video_audio appending_env ''/app/outputs/temp_video.mp4''
                 ''/app/outputs/dubbed_audio.wav'' ''/app/outputs/dubbed_video.mp4'' True
                 (snd (merge_video_audio appending_env ''/app/outputs/temp_video.mp4''
                         ''/app/outputs/dubbed_audio.wav'' ''/app/outputs/dubbed_video.mp4''
                         True media_world)))) ''/app/outputs/dubbed_video.mp4''
     = Some ''MEDIAMEDIA''"
proof -
  have "\<not> (''-y'' \<in> set [''-y'', ''o''] \<longrightarrow>
      result_of (ffmpeg appending_env [''-y'', ''o''] (Map.empty(last [''-y'', ''o''] := Some ''X'')))
        = result_of (ffmpeg appending_env [''-y'', ''o''] Map.empty) \<and>
      (files_of (ffmpeg appending_env [''-y'', ''o''] (Map.empty(last [''-y'', ''o''] := Some ''X'')))
         (last [''-y'', ''o'']) =
       files_of (ffmpeg appending_env [''-y'', ''o''] Map.empty) (last [''-y'', ''o'']) \<or>
       files_of (ffmpeg appending_env [''-y'', ''o''] (Map.empty(last [''-y'', ''o''] := Some ''X'')))
         (last [''-y'', ''o'']) = Some ''X''))"
    by (simp add: appending_env_def quiet_env_def files_of_def result_of_def)
  then have n: "\<not> overwrites_output appending_env"
    unfolding overwrites_output_def by blast
  have w: "writes_only_output appending_env"
    by (simp add: writes_only_output_def files_of_def appending_env_def quiet_env_def)
  have r: "files (snd (merge_video_audio appending_env ''/app/outputs/temp_video.mp4''
                 ''/app/outputs/dubbed_audio.wav'' ''/app/outputs/dubbed_video.mp4'' True
                 media_world)) ''/app/outputs/dubbed_video.mp4'' = Some ''MEDIA''"
      "files (snd (merge_video_audio appending_env ''/app/outputs/temp_video.mp4''
                 ''/app/outputs/dubbed_audio.wav'' ''/app/outputs/dubbed_video.mp4'' True
                 (snd (merge_video_audio appending_env ''/app/outputs/temp_video.mp4''
                         ''/app/outputs/dubbed_audio.wav'' ''/app/outputs/dubbed_video.mp4''
                         True media_world)))) ''/app/outputs/dubbed_video.mp4''
        = Some ''MEDIAMEDIA''"
    by (simp_all add: muxer_defs helper_defs media_world_def appending_env_def quiet_env_def)
  show ?thesis using n w r by simp
qed



lemma str_int_16000: "str_int 16000 = ''16000''"
  by (simp add: str_int_def str_nat.simps digit_def)

end
